theory Spec2Isabelle
  imports Complex_Main
begin

section \<open>The solar-system scene of \<open>js/solar-system.js\<close>\<close>

text \<open>
  The class \<open>SolarSystem\<close> keeps a list of planet meshes, a list of Saturn's ring
  objects, a camera and a few flags, and \<open>animate\<close> mutates them once per displayed
  frame. The model below passes that state explicitly. JavaScript numbers are
  modelled as real numbers: every statement below is about the arithmetic the code
  writes down, not about the rounding of IEEE doubles. Asynchronous texture loads
  are modelled by their completion: the operation takes the outcome of the load
  and, where the code calls \<open>Math.random()\<close>, the number it returned.

  Material opacity (driven by the wall clock) and the particle buffers of the
  rings are cosmetic and are read by no property below; they are left out of the
  records.
\<close>

subsection \<open>Data\<close>

datatype vector3 = Vector3 (vx: real) (vy: real) (vz: real)

text \<open>The \<open>data\<close> object of an entry of \<open>planetData\<close>, spread into \<open>userData\<close>.\<close>

record planet_info =
  realDistance :: string
  period :: string
  diameter :: string
  ptype :: string

datatype material = TextureMap string | FlatColor nat

text \<open>
  A planet mesh together with its \<open>userData\<close>. \<open>parentPlanet\<close>, \<open>size_ud\<close> and
  \<open>info\<close> are absent (\<open>None\<close>) where the code does not store them.
\<close>

record body =
  name :: string
  distance :: real
  orbitSpeed :: real
  rotationSpeed :: real
  angle :: real
  parentPlanet :: "string option"
  size_ud :: "real option"
  info :: "planet_info option"
  position :: vector3
  rotation_y :: real
  material :: material

record ring_segment =
  inner :: real
  outer :: real
  speed :: real
  opacity :: real
  height :: real
  color :: nat

datatype object_type = Mesh | Points

text \<open>
  An element of \<open>saturnRings\<close>: a ring mesh, a glow mesh, a gap mesh, a particle
  system or the rim light. \<open>ring_rotationSpeed\<close> is \<open>userData.rotationSpeed\<close>,
  \<open>None\<close> where \<open>userData\<close> has no such key. \<open>ring_parent\<close> is the index of the planet
  the object was added to.
\<close>

record ring =
  ring_type :: object_type
  ring_rotationSpeed :: "real option"
  ring_index :: "nat option"
  ring_segment :: "ring_segment option"
  isGlow :: bool
  isParticleSystem :: bool
  ring_rotation_y :: real
  ring_rotation_z :: real
  ring_parent :: nat

datatype scene_node = BodyNode nat | OrbitPathNode real

text \<open>
  The fields of a \<open>SolarSystem\<close> object. Object references (\<open>followTarget\<close>, \<open>moon\<close>,
  the scene's children) are indices into \<open>planets\<close>: the array only grows by
  \<open>push\<close>, so an index denotes the same mesh for ever. \<open>frames_requested\<close> counts
  the calls of \<open>requestAnimationFrame\<close>, \<open>renders\<close> the calls of \<open>renderer.render\<close>.
\<close>

record solar_system =
  planets :: "body list"
  orbitPaths :: "real list"
  animationSpeed :: real
  planetScale :: real
  showOrbits :: bool
  followTarget :: "nat option"
  isPaused :: bool
  saturnRings :: "ring list option"
  moon :: "nat option"
  sun_rotation_y :: "real option"
  sunGlowEffects :: "(real \<times> real) list option"
  starSphere_rotation_y :: "real option"
  camera_position :: vector3
  controls_target :: vector3
  scene :: "scene_node list"
  followPlanet_options :: "string list"
  frames_requested :: nat
  renders :: nat

datatype load_result = Loaded | Failed

subsection \<open>Construction\<close>

text \<open>
  The state \<open>init\<close> has built when it is about to start the animation loop, before
  any texture has arrived; the two counters count from there.
\<close>

definition initial :: solar_system where
  "initial = \<lparr> planets = [], orbitPaths = [], animationSpeed = 1.0, planetScale = 3.0,
      showOrbits = True, followTarget = None, isPaused = False, saturnRings = None,
      moon = None, sun_rotation_y = None, sunGlowEffects = None,
      starSphere_rotation_y = None, camera_position = Vector3 0 100 300,
      controls_target = Vector3 0 0 0, scene = [], followPlanet_options = [],
      frames_requested = 0, renders = 0 \<rparr>"

definition ringSegments :: "ring_segment list" where
  "ringSegments =
    [\<lparr> inner = 12, outer = 16, speed = 0.008, opacity = 0.9, height = 0.2, color = 0xdddddd \<rparr>,
     \<lparr> inner = 16, outer = 20, speed = 0.006, opacity = 1.0, height = 0.3, color = 0xffffff \<rparr>,
     \<lparr> inner = 20, outer = 25, speed = 0.004, opacity = 0.95, height = 0.5, color = 0xf5f5f5 \<rparr>,
     \<lparr> inner = 26, outer = 30, speed = 0.003, opacity = 0.8, height = 0.4, color = 0xeeeeee \<rparr>,
     \<lparr> inner = 32, outer = 34, speed = 0.002, opacity = 0.6, height = 0.15, color = 0xcccccc \<rparr>]"

text \<open>
  \<open>create3DRingSegment\<close> pushes the ring mesh and then, through
  \<open>addRingSubsurfaceEffect\<close>, its glow mesh.
\<close>

definition create3DRingSegment :: "nat \<Rightarrow> ring_segment \<Rightarrow> nat \<Rightarrow> ring list" where
  "create3DRingSegment saturnPlanet segment index =
    [\<lparr> ring_type = Mesh, ring_rotationSpeed = Some (speed segment), ring_index = Some index,
        ring_segment = Some segment, isGlow = False, isParticleSystem = False,
        ring_rotation_y = 0, ring_rotation_z = 0, ring_parent = saturnPlanet \<rparr>,
     \<lparr> ring_type = Mesh, ring_rotationSpeed = Some (speed segment * 0.7), ring_index = None,
        ring_segment = None, isGlow = True, isParticleSystem = False,
        ring_rotation_y = 0, ring_rotation_z = 0, ring_parent = saturnPlanet \<rparr>]"

definition createEnhancedRingGaps :: "nat \<Rightarrow> ring list" where
  "createEnhancedRingGaps saturnPlanet =
    replicate 2
     \<lparr> ring_type = Mesh, ring_rotationSpeed = Some 0.0035, ring_index = None,
        ring_segment = None, isGlow = False, isParticleSystem = False,
        ring_rotation_y = 0, ring_rotation_z = 0, ring_parent = saturnPlanet \<rparr>"

definition createEnhancedRingParticles :: "nat \<Rightarrow> ring list" where
  "createEnhancedRingParticles saturnPlanet =
    map (\<lambda>system_speed.
      \<lparr> ring_type = Points, ring_rotationSpeed = Some system_speed, ring_index = None,
        ring_segment = None, isGlow = False, isParticleSystem = True,
        ring_rotation_y = 0, ring_rotation_z = 0, ring_parent = saturnPlanet \<rparr>)
      [0.006, 0.004, 0.003, 0.002]"

definition createRingLightingEffects :: "nat \<Rightarrow> ring list" where
  "createRingLightingEffects saturnPlanet =
    [\<lparr> ring_type = Mesh, ring_rotationSpeed = None, ring_index = None,
        ring_segment = None, isGlow = False, isParticleSystem = False,
        ring_rotation_y = 0, ring_rotation_z = 0, ring_parent = saturnPlanet \<rparr>]"

text \<open>\<open>createSaturnRings\<close> starts from an empty array and pushes in this order.\<close>

definition createSaturnRings :: "nat \<Rightarrow> ring list" where
  "createSaturnRings saturnPlanet =
     concat (map (\<lambda>(index, segment). create3DRingSegment saturnPlanet segment index)
                 (enumerate 0 ringSegments))
     @ createEnhancedRingGaps saturnPlanet
     @ createEnhancedRingParticles saturnPlanet
     @ createRingLightingEffects saturnPlanet"

definition fallbackColors :: "string \<rightharpoonup> nat" where
  "fallbackColors =
    [''Mercury'' \<mapsto> 0x8C7853, ''Venus'' \<mapsto> 0xFFC649, ''Earth'' \<mapsto> 0x6B93D6,
     ''Mars'' \<mapsto> 0xCD5C5C, ''Jupiter'' \<mapsto> 0xF4A460, ''Saturn'' \<mapsto> 0xFAD5A5,
     ''Uranus'' \<mapsto> 0x4FD0E7, ''Neptune'' \<mapsto> 0x4169E1]"

text \<open>
  \<open>loadPlanet\<close> at the moment the texture loader calls back: \<open>res\<close> selects the
  success or the error callback, \<open>rnd\<close> is the value of \<open>Math.random()\<close>. The two
  callbacks differ in the material only. \<open>planetData\<close> is the four-key object every
  call in \<open>loadAllPlanets\<close> passes. The lookup in \<open>fallbackColors\<close> is that of the
  table's own keys: a name that is an inherited property of a JavaScript object
  (such as \<open>constructor\<close>) is outside the model.
\<close>

definition loadPlanet ::
  "string \<Rightarrow> real \<Rightarrow> real \<Rightarrow> string \<Rightarrow> real \<Rightarrow> real \<Rightarrow> planet_info \<Rightarrow>
   load_result \<Rightarrow> real \<Rightarrow> solar_system \<Rightarrow> solar_system" where
  "loadPlanet nm sz dst texturePath ospeed rspeed planetData res rnd s =
    (let planet = \<lparr> name = nm, distance = dst, orbitSpeed = ospeed, rotationSpeed = rspeed,
            angle = rnd * pi * 2, parentPlanet = None, size_ud = Some sz,
            info = Some planetData, position = Vector3 dst 0 0, rotation_y = 0,
            material = (case res of
                 Loaded \<Rightarrow> TextureMap texturePath
               | Failed \<Rightarrow> FlatColor (case fallbackColors nm of Some c \<Rightarrow> c | None \<Rightarrow> 0x888888)) \<rparr>;
         ix = length (planets s);
         s1 = s \<lparr> scene := scene s @ [BodyNode ix], planets := planets s @ [planet] \<rparr>;
         s2 = (if nm = ''Saturn'' then s1 \<lparr> saturnRings := Some (createSaturnRings ix) \<rparr> else s1);
         s3 = (if showOrbits s2
               then s2 \<lparr> scene := scene s2 @ [OrbitPathNode dst],
                        orbitPaths := orbitPaths s2 @ [dst] \<rparr>
               else s2)
     in s3 \<lparr> followPlanet_options := followPlanet_options s3 @ [nm] \<rparr>)"

text \<open>
  \<open>createMoon\<close> at the moment its loader calls back. The error callback only logs
  a warning.
\<close>

definition createMoon :: "load_result \<Rightarrow> solar_system \<Rightarrow> solar_system" where
  "createMoon res s =
    (case res of
       Loaded \<Rightarrow>
         (let m = \<lparr> name = ''Moon'', distance = 8, orbitSpeed = 0.036, rotationSpeed = 0.0036,
                angle = 0, parentPlanet = Some ''Earth'', size_ud = None, info = None,
                position = Vector3 0 0 0, rotation_y = 0,
                material = TextureMap ''textures/moon.jpg'' \<rparr>;
              ix = length (planets s)
          in s \<lparr> moon := Some ix, scene := scene s @ [BodyNode ix],
                 planets := planets s @ [m],
                 followPlanet_options := followPlanet_options s @ [''Moon''] \<rparr>)
     | Failed \<Rightarrow> s)"

subsection \<open>Input handlers\<close>

text \<open>
  The \<open>input\<close> listener of the speed slider; \<open>v\<close> is the number
  \<open>parseFloat(e.target.value)\<close> returned.
\<close>

definition speedSlider_input :: "real \<Rightarrow> solar_system \<Rightarrow> solar_system" where
  "speedSlider_input v s = s \<lparr> animationSpeed := v \<rparr>"

text \<open>
  The \<open>change\<close> listener of the follow selector: the first planet of that name, or
  nothing for the empty choice or an unknown name.
\<close>

definition followPlanet_change :: "string \<Rightarrow> solar_system \<Rightarrow> solar_system" where
  "followPlanet_change planetName s =
     s \<lparr> followTarget :=
           (if planetName \<noteq> []
            then map_option fst
                   (find (\<lambda>(index, p). name p = planetName) (enumerate 0 (planets s)))
            else None) \<rparr>"

definition pause :: "solar_system \<Rightarrow> solar_system" where
  "pause s = s \<lparr> isPaused := True \<rparr>"

definition resume :: "solar_system \<Rightarrow> solar_system" where
  "resume s = s \<lparr> isPaused := False \<rparr>"

subsection \<open>The frame callback\<close>

text \<open>
  The body of \<open>planets.forEach\<close> up to the spin update, for one planet. \<open>ps\<close> is the
  array as it stands when the planet is visited: the moon looks Earth up in it.
\<close>

definition update_planet :: "real \<Rightarrow> body list \<Rightarrow> body \<Rightarrow> body" where
  "update_planet spd ps planet =
    (let p1 =
       (if parentPlanet planet = Some ''Earth'' then
          (case find (\<lambda>p. name p = ''Earth'') ps of
             Some earth \<Rightarrow>
               (let a = angle planet + orbitSpeed planet * spd
                in planet \<lparr> angle := a,
                     position := Vector3 (vx (position earth) + cos a * distance planet)
                                         (vy (position earth))
                                         (vz (position earth) + sin a * distance planet) \<rparr>)
           | None \<Rightarrow> planet)
        else if name planet \<noteq> ''Moon'' then
          (let a = angle planet + orbitSpeed planet * spd
           in planet \<lparr> angle := a,
                position := Vector3 (cos a * distance planet)
                                    (vy (position planet))
                                    (sin a * distance planet) \<rparr>)
        else planet)
     in p1 \<lparr> rotation_y := rotation_y p1 + rotationSpeed p1 * spd \<rparr>)"

text \<open>
  The body of \<open>saturnRings.forEach\<close>. A missing or zero \<open>rotationSpeed\<close> is falsy
  and skips the object; particle systems turn about y, glow meshes and the other
  meshes about z (the two branches differ in the opacity they set).
\<close>

definition update_ring :: "real \<Rightarrow> ring \<Rightarrow> ring" where
  "update_ring spd r =
    (case ring_rotationSpeed r of
       None \<Rightarrow> r
     | Some v \<Rightarrow>
         if v = 0 then r
         else if ring_type r = Points then r \<lparr> ring_rotation_y := ring_rotation_y r + v * spd \<rparr>
         else if isGlow r then r \<lparr> ring_rotation_z := ring_rotation_z r + v * spd \<rparr>
         else r \<lparr> ring_rotation_z := ring_rotation_z r + v * spd \<rparr>)"

text \<open>One iteration of \<open>planets.forEach\<close>, at index \<open>i\<close>.\<close>

definition planet_step ::
  "real \<Rightarrow> body list \<times> ring list option \<Rightarrow> nat \<Rightarrow> body list \<times> ring list option" where
  "planet_step spd st i =
    (case st of (ps, rings) \<Rightarrow>
       (let planet = update_planet spd ps (ps ! i)
        in (ps[i := planet],
            if name planet = ''Saturn'' then map_option (map (update_ring spd)) rings
            else rings)))"

definition planets_forEach ::
  "real \<Rightarrow> body list \<Rightarrow> ring list option \<Rightarrow> body list \<times> ring list option" where
  "planets_forEach spd ps rings = foldl (planet_step spd) (ps, rings) [0..<length ps]"

text \<open>\<open>THREE.Vector3.lerp\<close>: each component moves by \<open>alpha\<close> times its gap.\<close>

definition lerp :: "vector3 \<Rightarrow> vector3 \<Rightarrow> real \<Rightarrow> vector3" where
  "lerp c v alpha =
     Vector3 (vx c + (vx v - vx c) * alpha)
             (vy c + (vy v - vy c) * alpha)
             (vz c + (vz v - vz c) * alpha)"

definition vadd :: "vector3 \<Rightarrow> vector3 \<Rightarrow> vector3" where
  "vadd a b = Vector3 (vx a + vx b) (vy a + vy b) (vz a + vz b)"

definition follow_offset :: vector3 where
  "follow_offset = Vector3 50 30 50"

text \<open>
  The camera-following block. A reference always denotes a registered planet, so
  the index is in range; outside it the model leaves the camera alone.
\<close>

definition camera_following :: "solar_system \<Rightarrow> solar_system" where
  "camera_following s =
    (case followTarget s of
       None \<Rightarrow> s
     | Some i \<Rightarrow>
         if i < length (planets s) then
           (let tp = position (planets s ! i)
            in s \<lparr> camera_position := lerp (camera_position s) (vadd tp follow_offset) 0.05,
                   controls_target := tp \<rparr>)
         else s)"

text \<open>
  \<open>animate\<close>. \<open>ctl\<close> stands for \<open>controls.update()\<close> of the \<open>OrbitControls\<close>
  library, called after the camera-following block; it may move the camera and
  the controls' target, by its distance limits and by the user's pointer input.
\<close>

definition animate ::
  "(vector3 \<times> vector3 \<Rightarrow> vector3 \<times> vector3) \<Rightarrow> solar_system \<Rightarrow> solar_system" where
  "animate ctl s0 =
    (let s = s0 \<lparr> frames_requested := frames_requested s0 + 1 \<rparr>
     in if isPaused s then s
        else
          (let spd = animationSpeed s;
               pr = planets_forEach spd (planets s) (saturnRings s);
               s1 = s \<lparr> planets := fst pr, saturnRings := snd pr \<rparr>;
               s2 = (case sun_rotation_y s1 of
                       None \<Rightarrow> s1
                     | Some r \<Rightarrow>
                         s1 \<lparr> sun_rotation_y := Some (r + 0.005 * spd),
                              sunGlowEffects :=
                                map_option
                                  (\<lambda>gs. map (\<lambda>(index, (rx, ry)).
                                            (rx + (0.0005 + real index * 0.0002) * spd,
                                             ry + (0.001 + real index * 0.0005) * spd))
                                          (enumerate 0 gs))
                                  (sunGlowEffects s1) \<rparr>);
               s3 = s2 \<lparr> starSphere_rotation_y :=
                           map_option (\<lambda>r. r + 0.0001 * spd) (starSphere_rotation_y s2) \<rparr>;
               s4 = camera_following s3;
               cu = ctl (camera_position s4, controls_target s4)
           in s4 \<lparr> camera_position := fst cu, controls_target := snd cu,
                   renders := renders s4 + 1 \<rparr>))"

subsection \<open>The table of \<open>loadAllPlanets\<close>\<close>

datatype planet_entry =
  PlanetEntry (e_name: string) (e_size: real) (e_distance: real) (e_texturePath: string)
              (e_orbitSpeed: real) (e_rotationSpeed: real) (e_data: planet_info)

definition planetData :: "planet_entry list" where
  "planetData =
    [PlanetEntry ''Mercury'' 0.38 40 ''textures/mercury.jpg'' 0.024 0.004
       \<lparr> realDistance = ''57.9 million km'', period = ''88 Earth days'',
          diameter = ''4,879 km'', ptype = ''Terrestrial'' \<rparr>,
     PlanetEntry ''Venus'' 0.95 70 ''textures/venus.jpg'' 0.015 (- 0.002)
       \<lparr> realDistance = ''108.2 million km'', period = ''225 Earth days'',
          diameter = ''12,104 km'', ptype = ''Terrestrial'' \<rparr>,
     PlanetEntry ''Earth'' 1.0 100 ''textures/earth.jpg'' 0.01 0.01
       \<lparr> realDistance = ''149.6 million km'', period = ''365.25 days'',
          diameter = ''12,756 km'', ptype = ''Terrestrial'' \<rparr>,
     PlanetEntry ''Mars'' 0.53 150 ''textures/mars.jpg'' 0.008 0.009
       \<lparr> realDistance = ''227.9 million km'', period = ''687 Earth days'',
          diameter = ''6,792 km'', ptype = ''Terrestrial'' \<rparr>,
     PlanetEntry ''Jupiter'' 11.2 250 ''textures/jupiter.jpg'' 0.002 0.04
       \<lparr> realDistance = ''778.5 million km'', period = ''11.86 Earth years'',
          diameter = ''142,984 km'', ptype = ''Gas Giant'' \<rparr>,
     PlanetEntry ''Saturn'' 9.5 350 ''textures/saturn.jpg'' 0.0009 0.038
       \<lparr> realDistance = ''1.43 billion km'', period = ''29.46 Earth years'',
          diameter = ''120,536 km'', ptype = ''Gas Giant'' \<rparr>,
     PlanetEntry ''Uranus'' 4.0 450 ''textures/uranus.jpg'' 0.0004 0.03
       \<lparr> realDistance = ''2.87 billion km'', period = ''84 Earth years'',
          diameter = ''51,118 km'', ptype = ''Ice Giant'' \<rparr>,
     PlanetEntry ''Neptune'' 3.9 550 ''textures/neptune.jpg'' 0.0001 0.032
       \<lparr> realDistance = ''4.5 billion km'', period = ''165 Earth years'',
          diameter = ''49,528 km'', ptype = ''Ice Giant'' \<rparr>]"

text \<open>The call \<open>loadAllPlanets\<close> makes for one entry, when its texture load ends.\<close>

definition loadPlanet_entry ::
  "planet_entry \<Rightarrow> load_result \<Rightarrow> real \<Rightarrow> solar_system \<Rightarrow> solar_system" where
  "loadPlanet_entry e res rnd s =
     loadPlanet (e_name e) (e_size e) (e_distance e) (e_texturePath e)
                (e_orbitSpeed e) (e_rotationSpeed e) (e_data e) res rnd s"

subsection \<open>Notions used by the properties\<close>

text \<open>The array as \<open>planets.forEach\<close> finds it when it reaches index \<open>i\<close>.\<close>

definition planets_before ::
  "real \<Rightarrow> body list \<Rightarrow> ring list option \<Rightarrow> nat \<Rightarrow> body list" where
  "planets_before spd ps rings i = fst (foldl (planet_step spd) (ps, rings) [0..<i])"

text \<open>
  A body is in place when its position is the one the update rule computes from
  its present phase: on its circle for a planet, at Earth's position plus its own
  offset for the moon. A body the loop does not move is always in place.
\<close>

definition in_place :: "body list \<Rightarrow> body \<Rightarrow> bool" where
  "in_place ps b =
    (if parentPlanet b = Some ''Earth'' then
       (case find (\<lambda>p. name p = ''Earth'') ps of
          Some earth \<Rightarrow>
            position b = Vector3 (vx (position earth) + cos (angle b) * distance b)
                                 (vy (position earth))
                                 (vz (position earth) + sin (angle b) * distance b)
        | None \<Rightarrow> True)
     else if name b \<noteq> ''Moon'' then
       vx (position b) = cos (angle b) * distance b \<and>
       vz (position b) = sin (angle b) * distance b
     else True)"

definition settled :: "body list \<Rightarrow> bool" where
  "settled ps = list_all (in_place ps) ps"

text \<open>Every body lies in the plane \<open>y = 0\<close>.\<close>

definition on_plane :: "body list \<Rightarrow> bool" where
  "on_plane ps = list_all (\<lambda>b. vy (position b) = 0) ps"

text \<open>Euclidean distance between two points.\<close>

definition vdist :: "vector3 \<Rightarrow> vector3 \<Rightarrow> real" where
  "vdist a b = sqrt ((vx a - vx b)\<^sup>2 + (vy a - vy b)\<^sup>2 + (vz a - vz b)\<^sup>2)"

subsection \<open>The orbit controls\<close>

text \<open>
  \<open>init\<close> builds the \<open>OrbitControls\<close> of the three.js library with damping,
  \<open>minDistance = 10\<close> and \<open>maxDistance = 2000\<close>. In a frame without pending pointer
  input its \<open>update()\<close> keeps the camera's direction from the target and clamps
  its distance into these limits; a camera at the target itself is lifted to the
  lower limit (the small polar margin the library adds there is left out).
  \<open>controls_update\<close> is that idle controller; \<open>user_moves_camera c\<close> is the
  controller in a frame where pointer input has taken the camera to \<open>c\<close>.
\<close>

definition minDistance :: real where
  "minDistance = 10"

definition maxDistance :: real where
  "maxDistance = 2000"

definition controls_update :: "vector3 \<times> vector3 \<Rightarrow> vector3 \<times> vector3" where
  "controls_update ct =
    (case ct of (c, t) \<Rightarrow>
       (let radius = vdist c t;
            clamped = max minDistance (min maxDistance radius)
        in if radius = 0 then (Vector3 (vx t) (vy t + clamped) (vz t), t)
           else (Vector3 (vx t + (vx c - vx t) * (clamped / radius))
                         (vy t + (vy c - vy t) * (clamped / radius))
                         (vz t + (vz c - vz t) * (clamped / radius)), t)))"

definition user_moves_camera :: "vector3 \<Rightarrow> vector3 \<times> vector3 \<Rightarrow> vector3 \<times> vector3" where
  "user_moves_camera c ct = (c, snd ct)"

subsection \<open>Some concrete scenes\<close>

text \<open>Mercury alone, its texture loaded, its random phase \<open>\<pi>\<close>.\<close>

definition mercury_scene :: solar_system where
  "mercury_scene = loadPlanet_entry (planetData ! 0) Loaded 0.5 initial"

text \<open>The slider is at 0 when Mercury's texture arrives.\<close>

definition mercury_at_zero_scene :: solar_system where
  "mercury_at_zero_scene = loadPlanet_entry (planetData ! 0) Loaded 0.5 (speedSlider_input 0 initial)"

text \<open>The moon's texture arrives before Earth's: the moon is registered first.\<close>

definition moon_first_scene :: solar_system where
  "moon_first_scene = loadPlanet_entry (planetData ! 2) Loaded 0.5 (createMoon Loaded initial)"

text \<open>Earth's texture arrives before the moon's.\<close>

definition earth_first_scene :: solar_system where
  "earth_first_scene = createMoon Loaded (loadPlanet_entry (planetData ! 2) Loaded 0.5 initial)"

text \<open>The body of the end-to-end scenario: radius 100, orbital speed 0.01, phase 0.\<close>

definition probe_scene :: solar_system where
  "probe_scene =
     loadPlanet ''Probe'' 1 100 ''textures/probe.jpg'' 0.01 0
       \<lparr> realDistance = ''n/a'', period = ''n/a'', diameter = ''n/a'', ptype = ''Probe'' \<rparr>
       Loaded 0 initial"

text \<open>Saturn alone, made to spin backwards, with its rings.\<close>

definition retrograde_saturn_scene :: solar_system where
  "retrograde_saturn_scene =
     loadPlanet ''Saturn'' 9.5 350 ''textures/saturn.jpg'' 0.0009 (- 0.038)
       (e_data (planetData ! 5)) Loaded 0 initial"

text \<open>Earth and the moon with the slider at 0, after one frame.\<close>

definition still_scene :: solar_system where
  "still_scene = animate id (speedSlider_input 0 earth_first_scene)"

text \<open>The same scene with Earth chosen in the follow selector.\<close>

definition follow_scene :: solar_system where
  "follow_scene = followPlanet_change ''Earth'' still_scene"

text \<open>The slider is at 0 when Neptune's texture arrives, with random phase \<open>\<pi>\<close>.\<close>

definition neptune_at_zero_scene :: solar_system where
  "neptune_at_zero_scene = loadPlanet_entry (planetData ! 7) Loaded 0.5 (speedSlider_input 0 initial)"

text \<open>
  After a frame in which the user has turned and zoomed the camera to
  \<open>(1900, 10, 10)\<close>, within the limit of 2000 from the origin the controls look
  at, Neptune is chosen in the follow selector.
\<close>

definition neptune_far_scene :: solar_system where
  "neptune_far_scene =
     followPlanet_change ''Neptune''
       (animate (user_moves_camera (Vector3 1900 10 10)) neptune_at_zero_scene)"

section \<open>Properties\<close>

subsection \<open>One planet, one pass of the loop\<close>

lemma update_planet_name [simp]: "name (update_planet spd ps b) = name b"
  by (simp add: update_planet_def Let_def split: option.splits)

lemma update_planet_parentPlanet [simp]: "parentPlanet (update_planet spd ps b) = parentPlanet b"
  by (simp add: update_planet_def Let_def split: option.splits)

lemma update_planet_orbitSpeed [simp]: "orbitSpeed (update_planet spd ps b) = orbitSpeed b"
  by (simp add: update_planet_def Let_def split: option.splits)

lemma update_planet_rotationSpeed [simp]: "rotationSpeed (update_planet spd ps b) = rotationSpeed b"
  by (simp add: update_planet_def Let_def split: option.splits)

lemma update_planet_distance [simp]: "distance (update_planet spd ps b) = distance b"
  by (simp add: update_planet_def Let_def split: option.splits)

lemma update_planet_rotation_y [simp]:
  "rotation_y (update_planet spd ps b) = rotation_y b + rotationSpeed b * spd"
  by (simp add: update_planet_def Let_def split: option.splits)

lemma update_planet_star:
  assumes "parentPlanet b \<noteq> Some ''Earth''" and "name b \<noteq> ''Moon''"
  shows "update_planet spd ps b =
           b \<lparr> angle := angle b + orbitSpeed b * spd,
               position := Vector3 (cos (angle b + orbitSpeed b * spd) * distance b)
                                   (vy (position b))
                                   (sin (angle b + orbitSpeed b * spd) * distance b),
               rotation_y := rotation_y b + rotationSpeed b * spd \<rparr>"
  using assms by (simp add: update_planet_def Let_def)

lemma update_planet_moon:
  assumes "parentPlanet b = Some ''Earth''"
    and "find (\<lambda>p. name p = ''Earth'') ps = Some earth"
  shows "update_planet spd ps b =
           b \<lparr> angle := angle b + orbitSpeed b * spd,
               position := Vector3 (vx (position earth) + cos (angle b + orbitSpeed b * spd) * distance b)
                                   (vy (position earth))
                                   (vz (position earth) + sin (angle b + orbitSpeed b * spd) * distance b),
               rotation_y := rotation_y b + rotationSpeed b * spd \<rparr>"
  using assms by (simp add: update_planet_def Let_def)

lemma map_list_update_same:
  assumes "f y = f (xs ! i)"
  shows "map f (xs[i := y]) = map f xs"
proof (cases "i < length xs")
  case True
  have "map f (xs[i := y]) = (map f xs)[i := f y]" by (simp add: map_update)
  also have "\<dots> = (map f xs)[i := (map f xs) ! i]" using True assms by simp
  also have "\<dots> = map f xs" by (rule list_update_id)
  finally show ?thesis .
next
  case False
  then have "length xs \<le> i" by simp
  then have "xs[i := y] = xs" by (rule list_update_beyond)
  then show ?thesis by simp
qed

lemma planet_step_length [simp]: "length (fst (planet_step spd st i)) = length (fst st)"
  by (cases st) (simp add: planet_step_def Let_def)

lemma foldl_planet_step_length [simp]:
  "length (fst (foldl (planet_step spd) st js)) = length (fst st)"
  by (induction js arbitrary: st) simp_all

lemma planet_step_map:
  assumes "\<And>qs b. f (update_planet spd qs b) = f b"
  shows "map f (fst (planet_step spd st i)) = map f (fst st)"
  by (cases st) (simp add: planet_step_def Let_def map_list_update_same assms)

lemma foldl_planet_step_map:
  assumes "\<And>qs b. f (update_planet spd qs b) = f b"
  shows "map f (fst (foldl (planet_step spd) st js)) = map f (fst st)"
proof (induction js arbitrary: st)
  case Nil
  show ?case by simp
next
  case (Cons j js)
  have "map f (fst (planet_step spd st j)) = map f (fst st)"
    using assms by (rule planet_step_map)
  then show ?case by (simp add: Cons.IH)
qed

lemma planet_step_other:
  "i \<noteq> j \<Longrightarrow> fst (planet_step spd st j) ! i = fst st ! i"
  by (cases st) (simp add: planet_step_def Let_def)

lemma foldl_planet_step_other:
  "i \<notin> set js \<Longrightarrow> fst (foldl (planet_step spd) st js) ! i = fst st ! i"
  by (induction js arbitrary: st) (simp_all add: planet_step_other)

lemma planet_step_at:
  "i < length (fst st) \<Longrightarrow>
     fst (planet_step spd st i) ! i = update_planet spd (fst st) (fst st ! i)"
  by (cases st) (simp add: planet_step_def Let_def)

lemma upt_split3: "i < n \<Longrightarrow> [0..<n] = [0..<i] @ i # [Suc i..<n]"
  by (metis le_add2 le_add_same_cancel2 upt_add_eq_append upt_conv_Cons less_imp_le_nat le_Suc_ex)

lemma planets_forEach_nth:
  assumes "i < length ps"
  shows "fst (planets_forEach spd ps rings) ! i =
           update_planet spd (planets_before spd ps rings i) (ps ! i)"
proof -
  let ?st = "foldl (planet_step spd) (ps, rings) [0..<i]"
  have len: "i < length (fst ?st)" using assms by simp
  have cur: "fst ?st ! i = ps ! i"
    using foldl_planet_step_other [of i "[0..<i]" spd "(ps, rings)"] by simp
  have "fst (planets_forEach spd ps rings) ! i
          = fst (foldl (planet_step spd) (planet_step spd ?st i) [Suc i..<length ps]) ! i"
    by (simp add: planets_forEach_def upt_split3 [OF assms])
  also have "\<dots> = fst (planet_step spd ?st i) ! i"
    by (rule foldl_planet_step_other) simp
  also have "\<dots> = update_planet spd (fst ?st) (fst ?st ! i)"
    by (rule planet_step_at [OF len])
  finally show ?thesis by (simp add: cur planets_before_def)
qed



lemma planets_before_length [simp]: "length (planets_before spd ps rings i) = length ps"
  by (simp add: planets_before_def)

lemma planets_forEach_length [simp]: "length (fst (planets_forEach spd ps rings)) = length ps"
  by (simp add: planets_forEach_def)


subsection \<open>Projections of a frame\<close>

lemma camera_following_planets [simp]: "planets (camera_following s) = planets s"
  by (simp add: camera_following_def Let_def split: option.splits)

lemma camera_following_saturnRings [simp]: "saturnRings (camera_following s) = saturnRings s"
  by (simp add: camera_following_def Let_def split: option.splits)

lemma camera_following_renders [simp]: "renders (camera_following s) = renders s"
  by (simp add: camera_following_def Let_def split: option.splits)

lemma camera_following_isPaused [simp]: "isPaused (camera_following s) = isPaused s"
  by (simp add: camera_following_def Let_def split: option.splits)

lemma camera_following_animationSpeed [simp]:
  "animationSpeed (camera_following s) = animationSpeed s"
  by (simp add: camera_following_def Let_def split: option.splits)

lemma camera_following_followTarget [simp]:
  "followTarget (camera_following s) = followTarget s"
  by (simp add: camera_following_def Let_def split: option.splits)

lemma animate_paused:
  "isPaused s \<Longrightarrow> animate ctl s = s \<lparr> frames_requested := frames_requested s + 1 \<rparr>"
  by (simp add: animate_def)

lemma animate_planets:
  "planets (animate ctl s) =
     (if isPaused s then planets s
      else fst (planets_forEach (animationSpeed s) (planets s) (saturnRings s)))"
  by (simp add: animate_def Let_def split: option.splits)


lemma animate_isPaused [simp]: "isPaused (animate ctl s) = isPaused s"
  by (simp add: animate_def Let_def split: option.splits)

lemma animate_animationSpeed [simp]: "animationSpeed (animate ctl s) = animationSpeed s"
  by (simp add: animate_def Let_def split: option.splits)

lemma animate_followTarget [simp]: "followTarget (animate ctl s) = followTarget s"
  by (simp add: animate_def Let_def split: option.splits)

lemma animate_length [simp]: "length (planets (animate ctl s)) = length (planets s)"
  by (simp add: animate_planets)

lemma funpow_animate_isPaused [simp]: "isPaused ((animate ctl ^^ n) s) = isPaused s"
  by (induction n) simp_all

lemma funpow_animate_animationSpeed [simp]:
  "animationSpeed ((animate ctl ^^ n) s) = animationSpeed s"
  by (induction n) simp_all

lemma funpow_animate_followTarget [simp]:
  "followTarget ((animate ctl ^^ n) s) = followTarget s"
  by (induction n) simp_all

lemma funpow_animate_length [simp]:
  "length (planets ((animate ctl ^^ n) s)) = length (planets s)"
  by (induction n) simp_all

lemma animate_renders:
  "renders (animate ctl s) = (if isPaused s then renders s else renders s + 1)"
  by (simp add: animate_def Let_def split: option.splits)

subsection \<open>A planet that circles the sun, over many frames\<close>

lemma animate_star:
  assumes "\<not> isPaused s" and "i < length (planets s)"
    and "parentPlanet (planets s ! i) \<noteq> Some ''Earth''" and "name (planets s ! i) \<noteq> ''Moon''"
  shows "planets (animate ctl s) ! i =
           (planets s ! i)
             \<lparr> angle := angle (planets s ! i) + orbitSpeed (planets s ! i) * animationSpeed s,
               position :=
                 Vector3 (cos (angle (planets s ! i) + orbitSpeed (planets s ! i) * animationSpeed s)
                            * distance (planets s ! i))
                         (vy (position (planets s ! i)))
                         (sin (angle (planets s ! i) + orbitSpeed (planets s ! i) * animationSpeed s)
                            * distance (planets s ! i)),
               rotation_y := rotation_y (planets s ! i)
                               + rotationSpeed (planets s ! i) * animationSpeed s \<rparr>"
  using assms by (simp add: animate_planets planets_forEach_nth update_planet_star)

lemma star_after_ticks:
  assumes "\<not> isPaused s" and "i < length (planets s)"
    and "parentPlanet (planets s ! i) \<noteq> Some ''Earth''" and "name (planets s ! i) \<noteq> ''Moon''"
  shows "planets ((animate ctl ^^ Suc n) s) ! i =
           (planets s ! i)
             \<lparr> angle := angle (planets s ! i)
                          + real (Suc n) * (orbitSpeed (planets s ! i) * animationSpeed s),
               position :=
                 Vector3 (cos (angle (planets s ! i)
                                + real (Suc n) * (orbitSpeed (planets s ! i) * animationSpeed s))
                            * distance (planets s ! i))
                         (vy (position (planets s ! i)))
                         (sin (angle (planets s ! i)
                                + real (Suc n) * (orbitSpeed (planets s ! i) * animationSpeed s))
                            * distance (planets s ! i)),
               rotation_y := rotation_y (planets s ! i)
                               + real (Suc n) * (rotationSpeed (planets s ! i) * animationSpeed s) \<rparr>"
proof (induction n)
  case 0
  show ?case using animate_star [OF assms, of ctl] by simp
next
  case (Suc n)
  let ?s = "(animate ctl ^^ Suc n) s"
  have np: "\<not> isPaused ?s" using assms(1) by (simp del: funpow.simps)
  have len: "i < length (planets ?s)" using assms(2) by (simp del: funpow.simps)
  have par: "parentPlanet (planets ?s ! i) \<noteq> Some ''Earth''"
    using assms(3) by (simp only: Suc.IH) simp
  have nam: "name (planets ?s ! i) \<noteq> ''Moon''"
    using assms(4) by (simp only: Suc.IH) simp
  have spd: "animationSpeed ?s = animationSpeed s" by (simp del: funpow.simps)
  have step: "planets ((animate ctl ^^ Suc (Suc n)) s) ! i = planets (animate ctl ?s) ! i"
    by simp
  have ar: "\<And>a k. a + (1 + real n) * k + k = a + (2 + real n) * k"
    by (simp add: algebra_simps)
  show ?case
    unfolding step animate_star [OF np len par nam] spd Suc.IH
    by (simp add: ar)
qed

lemma star_angle_after_ticks:
  assumes "\<not> isPaused s" and "i < length (planets s)"
    and "parentPlanet (planets s ! i) \<noteq> Some ''Earth''" and "name (planets s ! i) \<noteq> ''Moon''"
  shows "angle (planets ((animate ctl ^^ n) s) ! i)
           = angle (planets s ! i) + real n * (orbitSpeed (planets s ! i) * animationSpeed s)"
proof (cases n)
  case 0
  then show ?thesis by simp
next
  case (Suc m)
  show ?thesis unfolding Suc star_after_ticks [OF assms] by simp
qed

lemmas scene_defs = mercury_scene_def mercury_at_zero_scene_def moon_first_scene_def earth_first_scene_def probe_scene_def
  retrograde_saturn_scene_def loadPlanet_entry_def planetData_def loadPlanet_def createMoon_def
  initial_def Let_def

subsection \<open>The plane of the orbits\<close>

text \<open>
  No operation of the scene writes a \<open>y\<close> other than 0 into a body: \<open>loadPlanet\<close>
  and \<open>createMoon\<close> create it with \<open>y = 0\<close>, the loop leaves the \<open>y\<close> of a planet
  alone and gives the moon Earth's.
\<close>

lemma update_planet_on_plane:
  assumes "on_plane ps" and "vy (position b) = 0"
  shows "vy (position (update_planet spd ps b)) = 0"
proof (cases "find (\<lambda>p. name p = ''Earth'') ps")
  case None
  then show ?thesis using assms(2) by (simp add: update_planet_def Let_def)
next
  case (Some earth)
  then have "earth \<in> set ps" by (auto simp: find_Some_iff)
  then have "vy (position earth) = 0" using assms(1) by (simp add: on_plane_def list_all_iff)
  then show ?thesis using assms(2) Some by (simp add: update_planet_def Let_def)
qed

lemma planet_step_on_plane:
  assumes "on_plane (fst st)"
  shows "on_plane (fst (planet_step spd st i))"
proof (cases st)
  case (Pair ps rings)
  show ?thesis
  proof (cases "i < length ps")
    case True
    have ps: "on_plane ps" using assms Pair by simp
    then have "vy (position (ps ! i)) = 0" using True by (simp add: on_plane_def list_all_length)
    then have b: "vy (position (update_planet spd ps (ps ! i))) = 0"
      by (rule update_planet_on_plane [OF ps])
    have "set (ps[i := update_planet spd ps (ps ! i)])
            \<subseteq> insert (update_planet spd ps (ps ! i)) (set ps)"
      by (rule set_update_subset_insert)
    then have "on_plane (ps[i := update_planet spd ps (ps ! i)])"
      using ps b by (auto simp: on_plane_def list_all_iff)
    then show ?thesis by (simp add: Pair planet_step_def Let_def)
  next
    case False
    then have "length ps \<le> i" by simp
    then have "ps[i := update_planet spd ps (ps ! i)] = ps" by (rule list_update_beyond)
    then show ?thesis using assms Pair by (simp add: planet_step_def Let_def)
  qed
qed

lemma foldl_planet_step_on_plane:
  "on_plane (fst st) \<Longrightarrow> on_plane (fst (foldl (planet_step spd) st js))"
  by (induction js arbitrary: st) (simp_all add: planet_step_on_plane)

lemma on_plane_initial: "on_plane (planets initial)"
  by (simp add: on_plane_def initial_def)

lemma on_plane_loadPlanet:
  "on_plane (planets s) \<Longrightarrow> on_plane (planets (loadPlanet nm sz dst tp os rs pd res rnd s))"
  by (simp add: on_plane_def loadPlanet_def Let_def)

lemma on_plane_createMoon:
  "on_plane (planets s) \<Longrightarrow> on_plane (planets (createMoon res s))"
  by (cases res) (simp_all add: on_plane_def createMoon_def Let_def)

lemma on_plane_animate:
  "on_plane (planets s) \<Longrightarrow> on_plane (planets (animate ctl s))"
  by (simp add: animate_planets planets_forEach_def foldl_planet_step_on_plane)

section \<open>The claims\<close>

subsection \<open>C1: the orbit of a planet\<close>

text \<open>
  Claim C1. While the scene is not paused, a frame adds \<open>orbitSpeed * animationSpeed\<close>
  to the phase of every body that circles the sun (a body without parent that is
  not called Moon) and puts it at \<open>(cos phase * distance, 0, sin phase * distance)\<close>.
  The loop writes \<open>x\<close> and \<open>z\<close> only: \<open>y\<close> is the 0 that \<open>loadPlanet\<close> gave the mesh.
  After \<open>n\<close> frames the phase has grown by \<open>n * orbitSpeed * animationSpeed\<close>. The
  body of the end-to-end scenario (radius 100, speed 0.01, phase 0, time scale 1)
  is at phase 1 and at \<open>(cos 1 * 100, 0, sin 1 * 100)\<close> after 100 frames.
\<close>

theorem star_orbit_tick:
  assumes "\<not> isPaused s" and "i < length (planets s)"
    and "parentPlanet (planets s ! i) \<noteq> Some ''Earth''" and "name (planets s ! i) \<noteq> ''Moon''"
    and "vy (position (planets s ! i)) = 0"
  shows "angle (planets (animate ctl s) ! i)
           = angle (planets s ! i) + orbitSpeed (planets s ! i) * animationSpeed s
       \<and> position (planets (animate ctl s) ! i)
           = Vector3 (cos (angle (planets (animate ctl s) ! i)) * distance (planets s ! i))
                     0
                     (sin (angle (planets (animate ctl s) ! i)) * distance (planets s ! i))
       \<and> angle (planets ((animate ctl ^^ n) s) ! i)
           = angle (planets s ! i) + real n * (orbitSpeed (planets s ! i) * animationSpeed s)
       \<and> (0 < n \<longrightarrow>
            position (planets ((animate ctl ^^ n) s) ! i)
              = Vector3 (cos (angle (planets ((animate ctl ^^ n) s) ! i)) * distance (planets s ! i))
                        0
                        (sin (angle (planets ((animate ctl ^^ n) s) ! i)) * distance (planets s ! i)))"
proof -
  note h = assms(1-4)
  have one: "angle (planets (animate ctl s) ! i)
           = angle (planets s ! i) + orbitSpeed (planets s ! i) * animationSpeed s"
    unfolding animate_star [OF h] by simp
  have pos1: "position (planets (animate ctl s) ! i)
           = Vector3 (cos (angle (planets (animate ctl s) ! i)) * distance (planets s ! i))
                     0
                     (sin (angle (planets (animate ctl s) ! i)) * distance (planets s ! i))"
    unfolding animate_star [OF h] using assms(5) by simp
  have many: "angle (planets ((animate ctl ^^ n) s) ! i)
           = angle (planets s ! i) + real n * (orbitSpeed (planets s ! i) * animationSpeed s)"
    by (rule star_angle_after_ticks [OF h])
  have posn: "position (planets ((animate ctl ^^ n) s) ! i)
              = Vector3 (cos (angle (planets ((animate ctl ^^ n) s) ! i)) * distance (planets s ! i))
                        0
                        (sin (angle (planets ((animate ctl ^^ n) s) ! i)) * distance (planets s ! i))"
    if npos: "0 < n"
  proof -
    obtain m where m: "n = Suc m" using npos by (cases n) auto
    show ?thesis unfolding m star_after_ticks [OF h] using assms(5) by simp
  qed
  show ?thesis using one pos1 many posn by blast
qed

theorem star_orbit_tick_witness:
  "\<not> isPaused probe_scene \<and> 0 < length (planets probe_scene)
   \<and> parentPlanet (planets probe_scene ! 0) \<noteq> Some ''Earth''
   \<and> name (planets probe_scene ! 0) \<noteq> ''Moon''
   \<and> vy (position (planets probe_scene ! 0)) = 0
   \<and> distance (planets probe_scene ! 0) = 100
   \<and> orbitSpeed (planets probe_scene ! 0) = 0.01
   \<and> angle (planets probe_scene ! 0) = 0
   \<and> animationSpeed probe_scene = 1
   \<and> angle (planets ((animate id ^^ 100) probe_scene) ! 0) = 1
   \<and> position (planets ((animate id ^^ 100) probe_scene) ! 0)
       = Vector3 (cos 1 * 100) 0 (sin 1 * 100)"
proof -
  have h1: "\<not> isPaused probe_scene" by (simp add: scene_defs)
  have h2: "0 < length (planets probe_scene)" by (simp add: scene_defs)
  have h3: "parentPlanet (planets probe_scene ! 0) \<noteq> Some ''Earth''" by (simp add: scene_defs)
  have h4: "name (planets probe_scene ! 0) \<noteq> ''Moon''" by (simp add: scene_defs)
  have h5: "vy (position (planets probe_scene ! 0)) = 0" by (simp add: scene_defs)
  have d: "distance (planets probe_scene ! 0) = 100" by (simp add: scene_defs)
  have o: "orbitSpeed (planets probe_scene ! 0) = 0.01" by (simp add: scene_defs)
  have a: "angle (planets probe_scene ! 0) = 0" by (simp add: scene_defs)
  have v: "animationSpeed probe_scene = 1" by (simp add: scene_defs)
  have ang: "angle (planets ((animate id ^^ 100) probe_scene) ! 0) = 1"
    using star_orbit_tick [OF h1 h2 h3 h4 h5, where ctl = id and n = 100] by (simp add: d o a v)
  have pos: "position (planets ((animate id ^^ 100) probe_scene) ! 0)
       = Vector3 (cos 1 * 100) 0 (sin 1 * 100)"
    using star_orbit_tick [OF h1 h2 h3 h4 h5, where ctl = id and n = 100] by (simp add: d o a v)
  show ?thesis using h1 h2 h3 h4 h5 d o a v ang pos by blast
qed

subsection \<open>C9: the phase is never reduced\<close>

text \<open>
  Claim C9 says the stored phase stays within one period. The loop only ever adds
  to it: Mercury, loaded with phase \<open>\<pi>\<close>, is beyond \<open>2 * \<pi>\<close> after 200 frames at the
  default speed.
\<close>

theorem phase_wrap_counterexample:
  "0 \<le> angle (planets mercury_scene ! 0) \<and> angle (planets mercury_scene ! 0) < 2 * pi
   \<and> 2 * pi \<le> angle (planets ((animate id ^^ 200) mercury_scene) ! 0)"
proof -
  have h1: "\<not> isPaused mercury_scene" by (simp add: scene_defs)
  have h2: "0 < length (planets mercury_scene)" by (simp add: scene_defs)
  have h3: "parentPlanet (planets mercury_scene ! 0) \<noteq> Some ''Earth''" by (simp add: scene_defs)
  have h4: "name (planets mercury_scene ! 0) \<noteq> ''Moon''" by (simp add: scene_defs)
  have o: "orbitSpeed (planets mercury_scene ! 0) = 0.024" by (simp add: scene_defs)
  have a: "angle (planets mercury_scene ! 0) = pi" by (simp add: scene_defs)
  have v: "animationSpeed mercury_scene = 1" by (simp add: scene_defs)
  have "angle (planets ((animate id ^^ 200) mercury_scene) ! 0) = pi + 4.8"
    unfolding star_angle_after_ticks [OF h1 h2 h3 h4] by (simp add: o a v)
  moreover have "pi < 4" by (rule pi_less_4)
  moreover have "0 < pi" by (rule pi_gt_zero)
  ultimately show ?thesis unfolding a by simp
qed

text \<open>
  Claim C9, amended. The phase of a body that circles the sun is the plain sum
  \<open>angle + n * orbitSpeed * animationSpeed\<close> after \<open>n\<close> frames, with no reduction
  modulo \<open>2 * \<pi>\<close>; when \<open>orbitSpeed * animationSpeed\<close> is positive it passes every
  bound.
\<close>

theorem phase_grows_unwrapped:
  assumes "\<not> isPaused s" and "i < length (planets s)"
    and "parentPlanet (planets s ! i) \<noteq> Some ''Earth''" and "name (planets s ! i) \<noteq> ''Moon''"
  shows "angle (planets ((animate ctl ^^ n) s) ! i)
           = angle (planets s ! i) + real n * (orbitSpeed (planets s ! i) * animationSpeed s)
       \<and> (0 < orbitSpeed (planets s ! i) * animationSpeed s \<longrightarrow>
            (\<exists>m. bound < angle (planets ((animate ctl ^^ m) s) ! i)))"
proof -
  let ?k = "orbitSpeed (planets s ! i) * animationSpeed s"
  have closed: "\<And>m. angle (planets ((animate ctl ^^ m) s) ! i) = angle (planets s ! i) + real m * ?k"
    by (rule star_angle_after_ticks [OF assms])
  have grow: "\<exists>m. bound < angle (planets ((animate ctl ^^ m) s) ! i)" if pos: "0 < ?k"
  proof -
    obtain m where "bound - angle (planets s ! i) < real m * ?k"
      using reals_Archimedean3 [OF pos] by blast
    then have "bound < angle (planets s ! i) + real m * ?k" by simp
    then show ?thesis unfolding closed by blast
  qed
  show ?thesis using closed grow by blast
qed

theorem phase_grows_unwrapped_witness:
  "\<not> isPaused mercury_scene \<and> 0 < length (planets mercury_scene)
   \<and> parentPlanet (planets mercury_scene ! 0) \<noteq> Some ''Earth''
   \<and> name (planets mercury_scene ! 0) \<noteq> ''Moon''
   \<and> angle (planets ((animate id ^^ 1000) mercury_scene) ! 0) = pi + 24
   \<and> (\<exists>m. 100 < angle (planets ((animate id ^^ m) mercury_scene) ! 0))"
proof -
  have h1: "\<not> isPaused mercury_scene" by (simp add: scene_defs)
  have h2: "0 < length (planets mercury_scene)" by (simp add: scene_defs)
  have h3: "parentPlanet (planets mercury_scene ! 0) \<noteq> Some ''Earth''" by (simp add: scene_defs)
  have h4: "name (planets mercury_scene ! 0) \<noteq> ''Moon''" by (simp add: scene_defs)
  have o: "orbitSpeed (planets mercury_scene ! 0) = 0.024" by (simp add: scene_defs)
  have a: "angle (planets mercury_scene ! 0) = pi" by (simp add: scene_defs)
  have v: "animationSpeed mercury_scene = 1" by (simp add: scene_defs)
  have c1: "angle (planets ((animate id ^^ 1000) mercury_scene) ! 0) = pi + 24"
    using phase_grows_unwrapped [OF h1 h2 h3 h4, where ctl = id and n = 1000 and bound = 100] by (simp add: o a v)
  have c2: "\<exists>m. 100 < angle (planets ((animate id ^^ m) mercury_scene) ! 0)"
    using phase_grows_unwrapped [OF h1 h2 h3 h4, where ctl = id and n = 1000 and bound = 100] by (simp add: o v)
  show ?thesis using h1 h2 h3 h4 c1 c2 by blast
qed

subsection \<open>C2: the moon and Earth within one frame\<close>

text \<open>
  The moon looks Earth up in the array as the loop has left it so far: the first
  body called Earth, already moved if it stands before the moon.
\<close>

lemma planets_before_0 [simp]: "planets_before spd ps rings 0 = ps"
  by (simp add: planets_before_def)







subsection \<open>C3: time scale zero\<close>

lemma update_planet_zero_angle: "angle (update_planet 0 qs b) = angle b"
  by (simp add: update_planet_def Let_def split: option.splits)

lemma update_planet_zero_rotation_y: "rotation_y (update_planet 0 qs b) = rotation_y b"
  by simp

lemma update_planet_zero_in_place:
  assumes "in_place ps b"
  shows "update_planet 0 ps b = b"
proof (cases "parentPlanet b = Some ''Earth''")
  case True
  show ?thesis
  proof (cases "find (\<lambda>p. name p = ''Earth'') ps")
    case None
    then show ?thesis using True by (simp add: update_planet_def)
  next
    case (Some earth)
    have "position b = Vector3 (vx (position earth) + cos (angle b) * distance b)
                               (vy (position earth))
                               (vz (position earth) + sin (angle b) * distance b)"
      using assms True Some by (simp add: in_place_def)
    then show ?thesis
      unfolding update_planet_moon [OF True Some] by simp
  qed
next
  case False
  show ?thesis
  proof (cases "name b = ''Moon''")
    case True
    then show ?thesis using False by (simp add: update_planet_def)
  next
    case nm: False
    have "vx (position b) = cos (angle b) * distance b"
      and "vz (position b) = sin (angle b) * distance b"
      using assms False nm by (simp_all add: in_place_def)
    then have "Vector3 (cos (angle b) * distance b) (vy (position b)) (sin (angle b) * distance b)
                 = position b"
      by (cases "position b") simp
    then show ?thesis
      unfolding update_planet_star [OF False nm] by simp
  qed
qed

lemma planet_step_zero_settled:
  assumes "settled ps" and "i < length ps"
  shows "fst (planet_step 0 (ps, rings) i) = ps"
proof -
  have "in_place ps (ps ! i)"
    using assms by (simp add: settled_def list_all_length)
  then show ?thesis
    by (simp add: planet_step_def Let_def update_planet_zero_in_place)
qed

lemma foldl_planet_step_zero_settled:
  assumes "settled ps" and "\<forall>i\<in>set js. i < length ps"
  shows "fst (foldl (planet_step 0) (ps, rings) js) = ps"
  using assms(2)
proof (induction js arbitrary: rings)
  case Nil
  show ?case by simp
next
  case (Cons j js)
  have j: "j < length ps" using Cons.prems by simp
  obtain rings' where st: "planet_step 0 (ps, rings) j = (ps, rings')"
    using planet_step_zero_settled [OF assms(1) j, of rings]
    by (cases "planet_step 0 (ps, rings) j") simp
  show ?case using Cons.IH [of rings'] Cons.prems by (simp add: st)
qed

lemma animate_zero_settled:
  assumes "animationSpeed s = 0" and "settled (planets s)"
  shows "planets (animate ctl s) = planets s"
  using assms by (simp add: animate_planets planets_forEach_def foldl_planet_step_zero_settled)

lemma animate_zero_map_angle:
  assumes "animationSpeed s = 0"
  shows "map angle (planets (animate ctl s)) = map angle (planets s)"
  using foldl_planet_step_map [of angle 0 "(planets s, saturnRings s)" "[0..<length (planets s)]"]
    assms
  by (simp add: animate_planets planets_forEach_def update_planet_zero_angle)

lemma animate_zero_map_rotation_y:
  assumes "animationSpeed s = 0"
  shows "map rotation_y (planets (animate ctl s)) = map rotation_y (planets s)"
  using foldl_planet_step_map [of rotation_y 0 "(planets s, saturnRings s)" "[0..<length (planets s)]"]
    assms
  by (simp add: animate_planets planets_forEach_def)

text \<open>
  Claim C3 says that at time scale 0 no number of frames changes a phase, a
  position or a spin. The phase and the spin get 0 added, but the position is
  written afresh from the phase in every frame, and \<open>loadPlanet\<close> leaves a new
  planet at \<open>(distance, 0, 0)\<close> whatever its random phase: Mercury, loaded with
  phase \<open>\<pi>\<close> while the slider is at 0, jumps from \<open>(40, 0, 0)\<close> to \<open>(-40, 0, 0)\<close>
  in its first frame.
\<close>

theorem zero_speed_first_frame_counterexample:
  "animationSpeed mercury_at_zero_scene = 0
   \<and> \<not> isPaused mercury_at_zero_scene
   \<and> position (planets mercury_at_zero_scene ! 0) = Vector3 40 0 0
   \<and> position (planets (animate id mercury_at_zero_scene) ! 0) = Vector3 (- 40) 0 0"
proof -
  let ?s = "mercury_at_zero_scene"
  have v: "animationSpeed ?s = 0" by (simp add: speedSlider_input_def scene_defs)
  have h1: "\<not> isPaused ?s" by (simp add: speedSlider_input_def scene_defs)
  have h2: "0 < length (planets ?s)" by (simp add: speedSlider_input_def scene_defs)
  have h3: "parentPlanet (planets ?s ! 0) \<noteq> Some ''Earth''"
    by (simp add: speedSlider_input_def scene_defs)
  have h4: "name (planets ?s ! 0) \<noteq> ''Moon''" by (simp add: speedSlider_input_def scene_defs)
  have before: "position (planets ?s ! 0) = Vector3 40 0 0"
    by (simp add: speedSlider_input_def scene_defs)
  have a: "angle (planets ?s ! 0) = pi" by (simp add: speedSlider_input_def scene_defs)
  have d: "distance (planets ?s ! 0) = 40" by (simp add: speedSlider_input_def scene_defs)
  have after: "position (planets (animate id ?s) ! 0) = Vector3 (- 40) 0 0"
    unfolding animate_star [OF h1 h2 h3 h4] v a d before by simp
  show ?thesis using v h1 before after by blast
qed

text \<open>
  Claim C3, amended. At time scale 0, for every number of frames, the phase and
  the spin of every body stay as they were. A body that circles the sun is, from
  the first frame of the running scene on, at the point of its circle that its
  phase gives, and stays there. When every body is in place (its position is the
  one the update rule gives for its present phase) the positions, and with them
  the whole array, stay as they were too.
\<close>

theorem zero_speed_freezes_phase_and_spin:
  assumes "animationSpeed s = 0"
  shows "map angle (planets ((animate ctl ^^ n) s)) = map angle (planets s)
       \<and> map rotation_y (planets ((animate ctl ^^ n) s)) = map rotation_y (planets s)
       \<and> (\<not> isPaused s \<and> i < length (planets s)
            \<and> parentPlanet (planets s ! i) \<noteq> Some ''Earth'' \<and> name (planets s ! i) \<noteq> ''Moon'' \<longrightarrow>
            position (planets ((animate ctl ^^ Suc n) s) ! i)
              = Vector3 (cos (angle (planets s ! i)) * distance (planets s ! i))
                        (vy (position (planets s ! i)))
                        (sin (angle (planets s ! i)) * distance (planets s ! i)))
       \<and> (settled (planets s) \<longrightarrow> planets ((animate ctl ^^ n) s) = planets s)"
proof -
  have main: "map angle (planets ((animate ctl ^^ m) s)) = map angle (planets s)
       \<and> map rotation_y (planets ((animate ctl ^^ m) s)) = map rotation_y (planets s)
       \<and> (settled (planets s) \<longrightarrow> planets ((animate ctl ^^ m) s) = planets s)" for m
  proof (induction m)
    case 0
    show ?case by simp
  next
    case (Suc m)
    let ?s = "(animate ctl ^^ m) s"
    have z: "animationSpeed ?s = 0" using assms by simp
    have a: "map angle (planets (animate ctl ?s)) = map angle (planets s)"
      using animate_zero_map_angle [OF z] Suc.IH by simp
    have r: "map rotation_y (planets (animate ctl ?s)) = map rotation_y (planets s)"
      using animate_zero_map_rotation_y [OF z] Suc.IH by simp
    have p: "planets (animate ctl ?s) = planets s" if st: "settled (planets s)"
    proof -
      have eq: "planets ?s = planets s" using Suc.IH st by simp
      have "settled (planets ?s)" using st by (simp only: eq)
      then show ?thesis using animate_zero_settled [OF z] eq by simp
    qed
    show ?case using a r p by simp
  qed
  have star: "position (planets ((animate ctl ^^ Suc n) s) ! i)
              = Vector3 (cos (angle (planets s ! i)) * distance (planets s ! i))
                        (vy (position (planets s ! i)))
                        (sin (angle (planets s ! i)) * distance (planets s ! i))"
    if h: "\<not> isPaused s" "i < length (planets s)"
      "parentPlanet (planets s ! i) \<noteq> Some ''Earth''" "name (planets s ! i) \<noteq> ''Moon''"
    unfolding star_after_ticks [OF h] assms by simp
  show ?thesis using main [of n] star by blast
qed

lemma still_scene_planets:
  "planets still_scene =
    [\<lparr> name = ''Earth'', distance = 100, orbitSpeed = 0.01, rotationSpeed = 0.01,
        angle = pi, parentPlanet = None, size_ud = Some 1,
        info = Some (e_data (planetData ! 2)), position = Vector3 (- 100) 0 0, rotation_y = 0,
        material = TextureMap ''textures/earth.jpg'' \<rparr>,
     \<lparr> name = ''Moon'', distance = 8, orbitSpeed = 0.036, rotationSpeed = 0.0036,
        angle = 0, parentPlanet = Some ''Earth'', size_ud = None, info = None,
        position = Vector3 (- 92) 0 0, rotation_y = 0,
        material = TextureMap ''textures/moon.jpg'' \<rparr>]"
  by (simp add: still_scene_def animate_planets planets_forEach_def planet_step_def
        update_planet_def speedSlider_input_def scene_defs upt_rec)

theorem zero_speed_freezes_phase_and_spin_witness:
  "animationSpeed mercury_at_zero_scene = 0 \<and> \<not> isPaused mercury_at_zero_scene
   \<and> 0 < length (planets mercury_at_zero_scene)
   \<and> parentPlanet (planets mercury_at_zero_scene ! 0) \<noteq> Some ''Earth''
   \<and> name (planets mercury_at_zero_scene ! 0) \<noteq> ''Moon''
   \<and> position (planets ((animate id ^^ Suc 7) mercury_at_zero_scene) ! 0) = Vector3 (- 40) 0 0
   \<and> animationSpeed still_scene = 0 \<and> settled (planets still_scene)
   \<and> map angle (planets ((animate id ^^ 7) still_scene)) = map angle (planets still_scene)
   \<and> map rotation_y (planets ((animate id ^^ 7) still_scene))
       = map rotation_y (planets still_scene)
   \<and> planets ((animate id ^^ 7) still_scene) = planets still_scene"
proof -
  have mz: "animationSpeed mercury_at_zero_scene = 0"
    by (simp add: speedSlider_input_def scene_defs)
  have m1: "\<not> isPaused mercury_at_zero_scene" by (simp add: speedSlider_input_def scene_defs)
  have m2: "0 < length (planets mercury_at_zero_scene)"
    by (simp add: speedSlider_input_def scene_defs)
  have m3: "parentPlanet (planets mercury_at_zero_scene ! 0) \<noteq> Some ''Earth''"
    by (simp add: speedSlider_input_def scene_defs)
  have m4: "name (planets mercury_at_zero_scene ! 0) \<noteq> ''Moon''"
    by (simp add: speedSlider_input_def scene_defs)
  have ma: "angle (planets mercury_at_zero_scene ! 0) = pi"
    by (simp add: speedSlider_input_def scene_defs)
  have md: "distance (planets mercury_at_zero_scene ! 0) = 40"
    by (simp add: speedSlider_input_def scene_defs)
  have mp: "position (planets mercury_at_zero_scene ! 0) = Vector3 40 0 0"
    by (simp add: speedSlider_input_def scene_defs)
  note M = zero_speed_freezes_phase_and_spin [OF mz, where ctl = id and n = 7 and i = 0,
             THEN conjunct2, THEN conjunct2, THEN conjunct1, unfolded ma md mp]
  have c0: "position (planets ((animate id ^^ Suc 7) mercury_at_zero_scene) ! 0)
              = Vector3 (- 40) 0 0"
    using M m1 m2 m3 m4 by simp
  have z: "animationSpeed still_scene = 0"
    by (simp add: still_scene_def speedSlider_input_def)
  have st: "settled (planets still_scene)"
    unfolding still_scene_planets by (simp add: settled_def in_place_def)
  show ?thesis
    using mz m1 m2 m3 m4 c0 z st
      zero_speed_freezes_phase_and_spin [OF z, where ctl = id and n = 7 and i = 0]
    by blast
qed

subsection \<open>C4: a frame while paused\<close>

text \<open>
  Claim C4 says a frame of the paused scene updates nothing and still renders.
  \<open>animate\<close> returns right after it has asked for the next frame: the count of
  render calls does not move.
\<close>

theorem paused_frame_counterexample:
  "isPaused (pause mercury_scene)
   \<and> renders (animate id (pause mercury_scene)) = renders (pause mercury_scene)"
proof -
  have p: "isPaused (pause mercury_scene)" by (simp add: pause_def)
  show ?thesis using p by (simp add: animate_paused)
qed

text \<open>
  Claim C4, amended. A frame of the paused scene asks for the next frame and does
  nothing else: no phase, position, rotation or ring changes, the camera stays,
  and no render call is issued.
\<close>

theorem paused_frame_only_rearms:
  assumes "isPaused s"
  shows "animate ctl s = s \<lparr> frames_requested := frames_requested s + 1 \<rparr>
       \<and> planets (animate ctl s) = planets s
       \<and> saturnRings (animate ctl s) = saturnRings s
       \<and> camera_position (animate ctl s) = camera_position s
       \<and> renders (animate ctl s) = renders s
       \<and> frames_requested (animate ctl s) = frames_requested s + 1"
  using assms by (simp add: animate_paused)

theorem paused_frame_only_rearms_witness:
  "isPaused (pause mercury_scene)
   \<and> animate id (pause mercury_scene)
       = (pause mercury_scene) \<lparr> frames_requested := frames_requested (pause mercury_scene) + 1 \<rparr>
   \<and> planets (animate id (pause mercury_scene)) = planets (pause mercury_scene)
   \<and> renders (animate id (pause mercury_scene)) = renders (pause mercury_scene)
   \<and> frames_requested (animate id (pause mercury_scene)) = 1"
proof -
  have p: "isPaused (pause mercury_scene)" by (simp add: pause_def)
  have f: "frames_requested (pause mercury_scene) = 0" by (simp add: pause_def scene_defs)
  show ?thesis using p paused_frame_only_rearms [OF p, where ctl = id] f by simp
qed

subsection \<open>C7: a negative time scale\<close>

text \<open>
  Claim C7 says a negative time scale is rejected and the earlier value kept. The
  slider's listener stores whatever number it parsed.
\<close>

theorem negative_speed_counterexample:
  "animationSpeed initial = 1
   \<and> animationSpeed (speedSlider_input (- 1) initial) = - 1"
  by (simp add: speedSlider_input_def initial_def)

text \<open>
  Claim C7, amended. The listener stores every value, negative ones too, and the
  next frame of the running scene uses it: the phase of a body that circles the
  sun changes by \<open>orbitSpeed * v\<close>, backwards when \<open>v\<close> is negative.
\<close>

theorem speedSlider_input_stores_any_value:
  assumes "\<not> isPaused s" and "i < length (planets s)"
    and "parentPlanet (planets s ! i) \<noteq> Some ''Earth''" and "name (planets s ! i) \<noteq> ''Moon''"
  shows "animationSpeed (speedSlider_input v s) = v
         \<and> angle (planets (animate ctl (speedSlider_input v s)) ! i)
             = angle (planets s ! i) + orbitSpeed (planets s ! i) * v"
proof -
  let ?s = "speedSlider_input v s"
  have v: "animationSpeed ?s = v" by (simp add: speedSlider_input_def)
  have ps: "planets ?s = planets s" by (simp add: speedSlider_input_def)
  have np: "\<not> isPaused ?s" using assms(1) by (simp add: speedSlider_input_def)
  have "angle (planets (animate ctl ?s) ! i)
          = angle (planets ?s ! i) + orbitSpeed (planets ?s ! i) * animationSpeed ?s"
    using assms(2-4) unfolding animate_star [OF np, of i ctl, unfolded ps, OF assms(2-4)] ps
    by simp
  then show ?thesis unfolding v ps by (simp add: v)
qed

theorem speedSlider_input_stores_any_value_witness:
  "\<not> isPaused mercury_scene \<and> 0 < length (planets mercury_scene)
   \<and> parentPlanet (planets mercury_scene ! 0) \<noteq> Some ''Earth''
   \<and> name (planets mercury_scene ! 0) \<noteq> ''Moon''
   \<and> animationSpeed (speedSlider_input (- 1) mercury_scene) = - 1
   \<and> angle (planets (animate id (speedSlider_input (- 1) mercury_scene)) ! 0) = pi - 0.024"
proof -
  have h1: "\<not> isPaused mercury_scene" by (simp add: scene_defs)
  have h2: "0 < length (planets mercury_scene)" by (simp add: scene_defs)
  have h3: "parentPlanet (planets mercury_scene ! 0) \<noteq> Some ''Earth''" by (simp add: scene_defs)
  have h4: "name (planets mercury_scene ! 0) \<noteq> ''Moon''" by (simp add: scene_defs)
  have o: "orbitSpeed (planets mercury_scene ! 0) = 0.024" by (simp add: scene_defs)
  have a: "angle (planets mercury_scene ! 0) = pi" by (simp add: scene_defs)
  note T = speedSlider_input_stores_any_value [OF h1 h2 h3 h4, where ctl = id and v = "- 1",
             unfolded o a]
  have c1: "animationSpeed (speedSlider_input (- 1) mercury_scene) = - 1"
    using T by simp
  have c2: "angle (planets (animate id (speedSlider_input (- 1) mercury_scene)) ! 0) = pi - 0.024"
    using T by simp
  show ?thesis using h1 h2 h3 h4 c1 c2 by blast
qed

subsection \<open>C8: registering a name twice\<close>

text \<open>
  Claim C8 says a body whose name is already registered is rejected. \<open>loadPlanet\<close>
  pushes without looking at the names: loading Mercury twice gives two bodies
  called Mercury.
\<close>

theorem duplicate_name_counterexample:
  "map name (planets mercury_scene) = [''Mercury'']
   \<and> map name (planets (loadPlanet_entry (planetData ! 0) Loaded 0.25 mercury_scene))
       = [''Mercury'', ''Mercury'']
   \<and> \<not> distinct (map name (planets (loadPlanet_entry (planetData ! 0) Loaded 0.25 mercury_scene)))"
  by (simp add: scene_defs)

text \<open>
  Claim C8, amended. \<open>loadPlanet\<close> and the success callback of \<open>createMoon\<close>
  always append exactly one body with the given name and leave the bodies
  already registered as they are; the names in the registry are distinct
  afterwards exactly when they were distinct before and the new name was not
  among them.
\<close>

theorem registration_appends_unconditionally:
  "length (planets (loadPlanet nm sz dst tp os rs pd res rnd s)) = Suc (length (planets s))
   \<and> take (length (planets s)) (planets (loadPlanet nm sz dst tp os rs pd res rnd s)) = planets s
   \<and> name (last (planets (loadPlanet nm sz dst tp os rs pd res rnd s))) = nm
   \<and> distinct (map name (planets (loadPlanet nm sz dst tp os rs pd res rnd s)))
       = (distinct (map name (planets s)) \<and> nm \<notin> set (map name (planets s)))
   \<and> length (planets (createMoon Loaded s)) = Suc (length (planets s))
   \<and> take (length (planets s)) (planets (createMoon Loaded s)) = planets s
   \<and> name (last (planets (createMoon Loaded s))) = ''Moon''
   \<and> distinct (map name (planets (createMoon Loaded s)))
       = (distinct (map name (planets s)) \<and> ''Moon'' \<notin> set (map name (planets s)))"
proof -
  have l: "\<exists>b. planets (loadPlanet nm sz dst tp os rs pd res rnd s) = planets s @ [b] \<and> name b = nm"
    by (simp add: loadPlanet_def Let_def)
  have m: "\<exists>b. planets (createMoon Loaded s) = planets s @ [b] \<and> name b = ''Moon''"
    by (simp add: createMoon_def Let_def)
  obtain b where b: "planets (loadPlanet nm sz dst tp os rs pd res rnd s) = planets s @ [b]"
    "name b = nm" using l by blast
  obtain c where c: "planets (createMoon Loaded s) = planets s @ [c]" "name c = ''Moon''"
    using m by blast
  show ?thesis unfolding b(1) c(1) using b(2) c(2) by auto
qed

subsection \<open>C10: the moon's texture fails\<close>

text \<open>
  Claim C10. When the moon's texture fails to load, \<open>createMoon\<close> changes
  nothing: no body, no scene node, no entry in the selector. When a planet's
  texture fails, \<open>loadPlanet\<close> still appends the body, with a flat colour taken
  from \<open>fallbackColors\<close> (grey for a name the table lacks), adds its mesh to the
  scene and its name to the selector; the table has a colour for each of the
  eight planets of \<open>loadAllPlanets\<close>.
\<close>

theorem moon_has_no_fallback:
  "createMoon Failed s = s
   \<and> planets (loadPlanet nm sz dst tp os rs pd Failed rnd s) = planets s @
       [\<lparr> name = nm, distance = dst, orbitSpeed = os, rotationSpeed = rs,
          angle = rnd * pi * 2, parentPlanet = None, size_ud = Some sz,
          info = Some pd, position = Vector3 dst 0 0, rotation_y = 0,
          material = FlatColor (case fallbackColors nm of Some c \<Rightarrow> c | None \<Rightarrow> 0x888888) \<rparr>]
   \<and> BodyNode (length (planets s)) \<in> set (scene (loadPlanet nm sz dst tp os rs pd Failed rnd s))
   \<and> last (followPlanet_options (loadPlanet nm sz dst tp os rs pd Failed rnd s)) = nm
   \<and> map (\<lambda>e. fallbackColors (e_name e)) planetData
       = map Some [0x8C7853, 0xFFC649, 0x6B93D6, 0xCD5C5C, 0xF4A460, 0xFAD5A5, 0x4FD0E7, 0x4169E1]"
proof -
  have no_moon: "createMoon Failed s = s"
    by (simp add: createMoon_def)
  have body: "planets (loadPlanet nm sz dst tp os rs pd Failed rnd s) = planets s @
       [\<lparr> name = nm, distance = dst, orbitSpeed = os, rotationSpeed = rs,
          angle = rnd * pi * 2, parentPlanet = None, size_ud = Some sz,
          info = Some pd, position = Vector3 dst 0 0, rotation_y = 0,
          material = FlatColor (case fallbackColors nm of Some c \<Rightarrow> c | None \<Rightarrow> 0x888888) \<rparr>]"
    by (simp add: loadPlanet_def Let_def)
  have node: "BodyNode (length (planets s))
                \<in> set (scene (loadPlanet nm sz dst tp os rs pd Failed rnd s))"
    by (simp add: loadPlanet_def Let_def)
  have option: "last (followPlanet_options (loadPlanet nm sz dst tp os rs pd Failed rnd s)) = nm"
    by (simp add: loadPlanet_def Let_def)
  have table: "map (\<lambda>e. fallbackColors (e_name e)) planetData
       = map Some [0x8C7853, 0xFFC649, 0x6B93D6, 0xCD5C5C, 0xF4A460, 0xFAD5A5, 0x4FD0E7, 0x4169E1]"
    by (simp add: fallbackColors_def planetData_def)
  show ?thesis by (intro conjI no_moon body node option table)
qed

subsection \<open>C6: Saturn's rings\<close>










subsection \<open>C5: the camera follows a planet\<close>

text \<open>
  With a follow target set, a frame of the running scene interpolates the camera
  towards the target's new position plus \<open>(50, 30, 50)\<close> and then hands the camera
  to the controls.
\<close>

lemma animate_camera:
  assumes "\<not> isPaused s" and "followTarget s = Some i" and "i < length (planets s)"
  shows "camera_position (animate ctl s)
           = fst (ctl (lerp (camera_position s)
                            (vadd (position (planets (animate ctl s) ! i)) follow_offset) 0.05,
                       position (planets (animate ctl s) ! i)))"
  using assms
  by (simp add: animate_def Let_def camera_following_def split: option.splits)

lemma controls_update_idle:
  assumes "minDistance \<le> vdist c t" and "vdist c t \<le> maxDistance"
  shows "controls_update (c, t) = (c, t)"
proof -
  have pos: "vdist c t \<noteq> 0" using assms(1) by (simp add: minDistance_def)
  have cl: "max minDistance (min maxDistance (vdist c t)) = vdist c t"
    using assms by simp
  have one: "vdist c t / vdist c t = 1" using pos by simp
  show ?thesis
    by (simp add: controls_update_def Let_def cl one pos)
qed

lemma lerp_gap: "c + (g - c) * a - g = (1 - a) * (c - g)" for c g a :: real
  by (simp add: algebra_simps)

lemma vdist_lerp_general:
  "vdist (lerp c g a) g = \<bar>1 - a\<bar> * vdist c g"
proof -
  have "vdist (lerp c g a) g
        = sqrt (((1 - a) * (vx c - vx g))\<^sup>2 + ((1 - a) * (vy c - vy g))\<^sup>2
                 + ((1 - a) * (vz c - vz g))\<^sup>2)"
    by (simp add: vdist_def lerp_def lerp_gap)
  also have "\<dots> = sqrt ((1 - a)\<^sup>2 * ((vx c - vx g)\<^sup>2 + (vy c - vy g)\<^sup>2 + (vz c - vz g)\<^sup>2))"
    by (simp only: power_mult_distrib distrib_left)
  also have "\<dots> = \<bar>1 - a\<bar> * vdist c g"
    by (simp only: real_sqrt_mult real_sqrt_abs vdist_def)
  finally show ?thesis .
qed

lemma vdist_lerp: "vdist (lerp c g 0.05) g = 0.95 * vdist c g"
  unfolding vdist_lerp_general by simp

lemma vdist_eq_0_iff: "vdist a b = 0 \<longleftrightarrow> a = b"
proof
  assume "vdist a b = 0"
  then have "(vx a - vx b)\<^sup>2 + (vy a - vy b)\<^sup>2 + (vz a - vz b)\<^sup>2 = 0"
    by (simp add: vdist_def)
  moreover have "0 \<le> (vx a - vx b)\<^sup>2" "0 \<le> (vy a - vy b)\<^sup>2" "0 \<le> (vz a - vz b)\<^sup>2"
    by simp_all
  ultimately have "(vx a - vx b)\<^sup>2 = 0 \<and> (vy a - vy b)\<^sup>2 = 0 \<and> (vz a - vz b)\<^sup>2 = 0"
    by linarith
  then show "a = b" by (cases a; cases b) simp
next
  assume "a = b"
  then show "vdist a b = 0" by (simp add: vdist_def)
qed

lemma vdist_nonneg: "0 \<le> vdist a b"
  by (simp add: vdist_def)

lemma geometric_below:
  fixes q :: real
  assumes "0 < q" and "q < 1" and "0 < eps" and "0 \<le> d"
  shows "\<exists>N. \<forall>m\<ge>N. q ^ m * d < eps"
proof (cases "d = 0")
  case True
  then show ?thesis using assms(3) by simp
next
  case False
  then have dpos: "0 < d" using assms(4) by simp
  then have "0 < eps / d" using assms(3) by simp
  then obtain N where N: "q ^ N < eps / d"
    using real_arch_pow_inv [OF _ assms(2)] by blast
  have "q ^ m * d < eps" if le: "N \<le> m" for m
  proof -
    have "q ^ m \<le> q ^ N" using le assms(1,2) by (simp add: power_decreasing)
    then have "q ^ m < eps / d" using N by linarith
    then show ?thesis using dpos by (simp add: pos_less_divide_eq)
  qed
  then show ?thesis by blast
qed

lemmas far_defs = neptune_at_zero_scene_def speedSlider_input_def scene_defs

text \<open>
  Claim C5 says every frame leaves the camera at the point the interpolation
  gives. \<open>controls.update()\<close> runs after the interpolation and may move the
  camera again. With Neptune at \<open>(-550, 0, 0)\<close> and the camera at
  \<open>(1900, 10, 10)\<close>, the interpolation gives \<open>(1780, 11, 12)\<close>, more than 2000 from
  Neptune, and the controls pull the camera in to their limit.
\<close>

theorem camera_moved_by_controls_counterexample:
  "\<not> isPaused neptune_far_scene \<and> followTarget neptune_far_scene = Some 0
   \<and> camera_position neptune_far_scene = Vector3 1900 10 10
   \<and> position (planets (animate controls_update neptune_far_scene) ! 0) = Vector3 (- 550) 0 0
   \<and> lerp (Vector3 1900 10 10) (vadd (Vector3 (- 550) 0 0) follow_offset) 0.05
       = Vector3 1780 11 12
   \<and> camera_position (animate controls_update neptune_far_scene) \<noteq> Vector3 1780 11 12"
proof -
  let ?s0 = "neptune_at_zero_scene"
  let ?user = "user_moves_camera (Vector3 1900 10 10)"
  let ?s1 = "animate ?user ?s0"
  have a1: "\<not> isPaused ?s0" by (simp add: far_defs)
  have a2: "0 < length (planets ?s0)" by (simp add: far_defs)
  have a3: "parentPlanet (planets ?s0 ! 0) \<noteq> Some ''Earth''"
    by (simp add: far_defs)
  have a4: "name (planets ?s0 ! 0) \<noteq> ''Moon''" by (simp add: far_defs)
  have v0: "animationSpeed ?s0 = 0" by (simp add: far_defs)
  have an: "angle (planets ?s0 ! 0) = pi" by (simp add: far_defs)
  have di: "distance (planets ?s0 ! 0) = 550" by (simp add: far_defs)
  have po: "position (planets ?s0 ! 0) = Vector3 550 0 0"
    by (simp add: far_defs)
  have nm0: "name (planets ?s0 ! 0) = ''Neptune''" by (simp add: far_defs)
  have ps: "planets neptune_far_scene = planets ?s1"
    by (simp add: neptune_far_scene_def followPlanet_change_def)
  have len1: "length (planets ?s1) = 1" by (simp add: far_defs)
  have nm1: "name (planets ?s1 ! 0) = ''Neptune''"
    unfolding animate_star [OF a1 a2 a3 a4] by (simp add: nm0)
  obtain b where b: "planets ?s1 = [b]"
    using len1 by (cases "planets ?s1") auto
  have nb: "name b = ''Neptune''" using nm1 b by simp
  have h1: "\<not> isPaused neptune_far_scene"
    using a1 by (simp add: neptune_far_scene_def followPlanet_change_def)
  have h2: "followTarget neptune_far_scene = Some 0"
    by (simp add: neptune_far_scene_def followPlanet_change_def b nb)
  have h3: "0 < length (planets neptune_far_scene)" using a2 by (simp add: ps)
  have cam: "camera_position neptune_far_scene = Vector3 1900 10 10"
    using a1 by (simp add: neptune_far_scene_def followPlanet_change_def animate_def
          camera_following_def user_moves_camera_def far_defs)
  have two: "(animate controls_update ^^ Suc 0) ((animate ?user ^^ Suc 0) ?s0)
               = animate controls_update ?s1" by simp
  have p1: "position (planets ?s1 ! 0) = Vector3 (- 550) 0 0"
    unfolding animate_star [OF a1 a2 a3 a4] v0 an di po by simp
  have b1: "\<not> isPaused ?s1" using a1 by simp
  have b2: "0 < length (planets ?s1)" using a2 by simp
  have b3: "parentPlanet (planets ?s1 ! 0) \<noteq> Some ''Earth''"
    unfolding animate_star [OF a1 a2 a3 a4] using a3 by simp
  have b4: "name (planets ?s1 ! 0) \<noteq> ''Moon''" by (simp add: nm1)
  have v1: "animationSpeed ?s1 = 0" using v0 by simp
  have an1: "angle (planets ?s1 ! 0) = pi"
    unfolding animate_star [OF a1 a2 a3 a4] v0 an by simp
  have di1: "distance (planets ?s1 ! 0) = 550"
    unfolding animate_star [OF a1 a2 a3 a4] using di by simp
  have nf: "planets (animate controls_update neptune_far_scene)
              = planets (animate controls_update ?s1)"
    using h1 b1 by (simp add: animate_planets ps neptune_far_scene_def followPlanet_change_def)
  have "position (planets (animate controls_update ?s1) ! 0)
          = Vector3 (cos (angle (planets ?s1 ! 0)
                            + orbitSpeed (planets ?s1 ! 0) * animationSpeed ?s1)
                       * distance (planets ?s1 ! 0))
                    (vy (position (planets ?s1 ! 0)))
                    (sin (angle (planets ?s1 ! 0)
                            + orbitSpeed (planets ?s1 ! 0) * animationSpeed ?s1)
                       * distance (planets ?s1 ! 0))"
    unfolding animate_star [OF b1 b2 b3 b4] by simp
  also have "\<dots> = Vector3 (- 550) 0 0"
    by (simp only: v1 an1 di1 p1) simp
  finally have tp: "position (planets (animate controls_update neptune_far_scene) ! 0)
              = Vector3 (- 550) 0 0"
    by (simp only: nf)
  have lp: "lerp (Vector3 1900 10 10) (vadd (Vector3 (- 550) 0 0) follow_offset) 0.05
              = Vector3 1780 11 12"
    by (simp add: lerp_def vadd_def follow_offset_def)
  have after: "camera_position (animate controls_update neptune_far_scene)
                 = fst (controls_update (Vector3 1780 11 12, Vector3 (- 550) 0 0))"
    unfolding animate_camera [OF h1 h2 h3] tp cam lp ..
  let ?r = "vdist (Vector3 1780 11 12) (Vector3 (- 550) 0 0)"
  have "(2000::real)\<^sup>2 < (1780 - (- 550))\<^sup>2 + (11 - 0)\<^sup>2 + (12 - 0)\<^sup>2" by simp
  then have far: "2000 < ?r"
    unfolding vdist_def vector3.sel by (rule real_less_rsqrt)
  then have cl: "max minDistance (min maxDistance ?r) = 2000"
    by (simp add: minDistance_def maxDistance_def)
  have ratio: "2000 / ?r < 1" using far by simp
  have "vx (fst (controls_update (Vector3 1780 11 12, Vector3 (- 550) 0 0)))
          = - 550 + 2330 * (2000 / ?r)"
    using far by (simp add: controls_update_def Let_def cl)
  also have "\<dots> < - 550 + 2330 * 1"
    using ratio by simp
  finally have "vx (fst (controls_update (Vector3 1780 11 12, Vector3 (- 550) 0 0))) < 1780"
    by simp
  then have ne: "camera_position (animate controls_update neptune_far_scene) \<noteq> Vector3 1780 11 12"
    unfolding after by auto
  show ?thesis using h1 h2 cam tp lp ne by blast
qed

text \<open>
  Claim C5, amended. With a follow target set, a frame of the running scene moves
  the camera by linear interpolation with factor 0.05 towards the target's
  position of that frame plus \<open>(50, 30, 50)\<close>, and the camera ends the frame where
  \<open>controls.update()\<close> puts it from there. When the target stays at \<open>p\<close> and the
  controls leave the interpolated camera where it is in every frame of the run,
  each frame is that interpolation alone, the distance from the camera to
  \<open>p + (50, 30, 50)\<close> after \<open>n\<close> frames is \<open>0.95 ^ n\<close> times the distance at the start,
  it falls below every positive tolerance from some frame on, and a camera that
  starts elsewhere is never exactly there.
\<close>

theorem camera_follow_after_controls:
  assumes "\<not> isPaused s" and "followTarget s = Some i" and "i < length (planets s)"
  shows "camera_position (animate ctl s)
           = fst (ctl (lerp (camera_position s)
                            (vadd (position (planets (animate ctl s) ! i)) follow_offset) 0.05,
                       position (planets (animate ctl s) ! i)))
       \<and> ((\<forall>m. position (planets ((animate ctl ^^ Suc m) s) ! i) = p
               \<and> fst (ctl (lerp (camera_position ((animate ctl ^^ m) s))
                                 (vadd p follow_offset) 0.05, p))
                   = lerp (camera_position ((animate ctl ^^ m) s)) (vadd p follow_offset) 0.05) \<longrightarrow>
            camera_position ((animate ctl ^^ Suc n) s)
              = lerp (camera_position ((animate ctl ^^ n) s)) (vadd p follow_offset) 0.05
          \<and> vdist (camera_position ((animate ctl ^^ n) s)) (vadd p follow_offset)
              = 0.95 ^ n * vdist (camera_position s) (vadd p follow_offset)
          \<and> (camera_position s \<noteq> vadd p follow_offset \<longrightarrow>
               camera_position ((animate ctl ^^ n) s) \<noteq> vadd p follow_offset)
          \<and> (0 < eps \<longrightarrow>
               (\<exists>N. \<forall>m\<ge>N. vdist (camera_position ((animate ctl ^^ m) s)) (vadd p follow_offset)
                               < eps)))"
proof -
  let ?g = "vadd p follow_offset"
  let ?cam = "\<lambda>m. camera_position ((animate ctl ^^ m) s)"
  have one: "camera_position (animate ctl s)
           = fst (ctl (lerp (camera_position s)
                            (vadd (position (planets (animate ctl s) ! i)) follow_offset) 0.05,
                       position (planets (animate ctl s) ! i)))"
    by (rule animate_camera [OF assms])
  have rest: "?cam (Suc n) = lerp (?cam n) ?g 0.05
          \<and> vdist (?cam n) ?g = 0.95 ^ n * vdist (camera_position s) ?g
          \<and> (camera_position s \<noteq> ?g \<longrightarrow> ?cam n \<noteq> ?g)
          \<and> (0 < eps \<longrightarrow> (\<exists>N. \<forall>m\<ge>N. vdist (?cam m) ?g < eps))"
    if run: "\<forall>m. position (planets ((animate ctl ^^ Suc m) s) ! i) = p
               \<and> fst (ctl (lerp (?cam m) ?g 0.05, p)) = lerp (?cam m) ?g 0.05"
  proof -
    have step: "?cam (Suc m) = lerp (?cam m) ?g 0.05" for m
    proof -
      let ?s = "(animate ctl ^^ m) s"
      have np: "\<not> isPaused ?s" using assms(1) by simp
      have ft: "followTarget ?s = Some i" using assms(2) by simp
      have len: "i < length (planets ?s)" using assms(3) by simp
      have tp: "position (planets (animate ctl ?s) ! i) = p" using run by simp
      have idle: "fst (ctl (lerp (?cam m) ?g 0.05, p)) = lerp (?cam m) ?g 0.05"
        using run by blast
      have e: "?cam (Suc m) = camera_position (animate ctl ?s)" by simp
      show ?thesis
        unfolding e animate_camera [OF np ft len] tp idle ..
    qed
    have closed: "vdist (?cam m) ?g = 0.95 ^ m * vdist (camera_position s) ?g" for m
    proof (induction m)
      case 0
      show ?case by simp
    next
      case (Suc m)
      have "vdist (?cam (Suc m)) ?g = 0.95 * vdist (?cam m) ?g"
        by (simp only: step vdist_lerp)
      then show ?case by (simp add: Suc.IH)
    qed
    have never: "?cam n \<noteq> ?g" if ne: "camera_position s \<noteq> ?g"
    proof
      assume "?cam n = ?g"
      then have "vdist (?cam n) ?g = 0" by (simp add: vdist_eq_0_iff)
      then have "vdist (camera_position s) ?g = 0" unfolding closed by simp
      then show False using ne by (simp add: vdist_eq_0_iff)
    qed
    have below: "\<exists>N. \<forall>m\<ge>N. vdist (?cam m) ?g < eps" if "0 < eps"
      unfolding closed
      by (rule geometric_below [OF _ _ that vdist_nonneg]) simp_all
    show ?thesis using step [of n] closed never below by blast
  qed
  show ?thesis using one rest by blast
qed

text \<open>
  The witness is the scene that follows Earth at \<open>(-100, 0, 0)\<close> with the idle
  controls: the camera stays in the box between its start \<open>(0, 100, 300)\<close> and the
  goal \<open>(-50, 30, 50)\<close>, every point of which is between 10 and 2000 from Earth.
\<close>

lemma lerp_in_box:
  assumes "- 50 \<le> vx c" "vx c \<le> 0" "30 \<le> vy c" "vy c \<le> 100" "50 \<le> vz c" "vz c \<le> 300"
  shows "- 50 \<le> vx (lerp c (Vector3 (- 50) 30 50) 0.05)
       \<and> vx (lerp c (Vector3 (- 50) 30 50) 0.05) \<le> 0
       \<and> 30 \<le> vy (lerp c (Vector3 (- 50) 30 50) 0.05)
       \<and> vy (lerp c (Vector3 (- 50) 30 50) 0.05) \<le> 100
       \<and> 50 \<le> vz (lerp c (Vector3 (- 50) 30 50) 0.05)
       \<and> vz (lerp c (Vector3 (- 50) 30 50) 0.05) \<le> 300"
  using assms by (simp add: lerp_def field_simps)

lemma box_within_limits:
  assumes "- 50 \<le> vx c" "vx c \<le> 0" "30 \<le> vy c" "vy c \<le> 100" "50 \<le> vz c" "vz c \<le> 300"
  shows "minDistance \<le> vdist c (Vector3 (- 100) 0 0)
       \<and> vdist c (Vector3 (- 100) 0 0) \<le> maxDistance"
proof -
  let ?S = "(vx c - (- 100))\<^sup>2 + (vy c - 0)\<^sup>2 + (vz c - 0)\<^sup>2"
  have x1: "50\<^sup>2 \<le> (vx c - (- 100))\<^sup>2" using assms by (intro power_mono) simp_all
  have x2: "(vx c - (- 100))\<^sup>2 \<le> 100\<^sup>2" using assms by (intro power_mono) simp_all
  have y2: "(vy c - 0)\<^sup>2 \<le> 100\<^sup>2" using assms by (intro power_mono) simp_all
  have z2: "(vz c - 0)\<^sup>2 \<le> 300\<^sup>2" using assms by (intro power_mono) simp_all
  have lo: "10\<^sup>2 \<le> ?S"
  proof -
    have "(10::real)\<^sup>2 \<le> 50\<^sup>2" by simp
    also have "\<dots> \<le> (vx c - (- 100))\<^sup>2" by (rule x1)
    also have "\<dots> \<le> ?S" by simp
    finally show ?thesis .
  qed
  have hi: "?S \<le> 2000\<^sup>2"
  proof -
    have "?S \<le> 100\<^sup>2 + 100\<^sup>2 + (300::real)\<^sup>2" using x2 y2 z2 by linarith
    also have "\<dots> \<le> 2000\<^sup>2" by simp
    finally show ?thesis .
  qed
  have "10 \<le> sqrt ?S" using lo by (rule real_le_rsqrt)
  moreover have "sqrt ?S \<le> 2000" using hi by (intro real_le_lsqrt) simp_all
  ultimately show ?thesis
    by (simp add: vdist_def minDistance_def maxDistance_def)
qed


lemma follow_scene_planets: "planets follow_scene = planets still_scene"
  by (simp add: follow_scene_def followPlanet_change_def)

lemma follow_scene_running: "\<not> isPaused follow_scene"
  by (simp add: follow_scene_def followPlanet_change_def still_scene_def
        speedSlider_input_def scene_defs)

lemma follow_scene_target: "followTarget follow_scene = Some 0"
  by (simp add: follow_scene_def followPlanet_change_def still_scene_planets enumerate_eq_zip
        upt_rec)

lemma follow_scene_length: "0 < length (planets follow_scene)"
  by (simp add: follow_scene_planets still_scene_planets)

lemma follow_scene_still:
  "position (planets ((animate ctl ^^ Suc m) follow_scene) ! 0) = Vector3 (- 100) 0 0"
proof -
  have v: "animationSpeed follow_scene = 0"
    by (simp add: follow_scene_def followPlanet_change_def still_scene_def speedSlider_input_def)
  have par: "parentPlanet (planets follow_scene ! 0) \<noteq> Some ''Earth''"
    by (simp add: follow_scene_planets still_scene_planets)
  have nam: "name (planets follow_scene ! 0) \<noteq> ''Moon''"
    by (simp add: follow_scene_planets still_scene_planets)
  show ?thesis
    unfolding star_after_ticks [OF follow_scene_running follow_scene_length par nam] v
    by (simp add: follow_scene_planets still_scene_planets)
qed

lemma follow_scene_camera: "camera_position follow_scene = Vector3 0 100 300"
  by (simp add: follow_scene_def followPlanet_change_def still_scene_def animate_def
        camera_following_def speedSlider_input_def scene_defs)

lemma follow_goal: "vadd (Vector3 (- 100) 0 0) follow_offset = Vector3 (- 50) 30 50"
  by (simp add: vadd_def follow_offset_def)

lemma follow_scene_controls_idle:
  "(- 50 \<le> vx (camera_position ((animate controls_update ^^ m) follow_scene))
    \<and> vx (camera_position ((animate controls_update ^^ m) follow_scene)) \<le> 0
    \<and> 30 \<le> vy (camera_position ((animate controls_update ^^ m) follow_scene))
    \<and> vy (camera_position ((animate controls_update ^^ m) follow_scene)) \<le> 100
    \<and> 50 \<le> vz (camera_position ((animate controls_update ^^ m) follow_scene))
    \<and> vz (camera_position ((animate controls_update ^^ m) follow_scene)) \<le> 300)
   \<and> controls_update
         (lerp (camera_position ((animate controls_update ^^ m) follow_scene))
               (Vector3 (- 50) 30 50) 0.05, Vector3 (- 100) 0 0)
       = (lerp (camera_position ((animate controls_update ^^ m) follow_scene))
               (Vector3 (- 50) 30 50) 0.05, Vector3 (- 100) 0 0)"
proof (induction m)
  case 0
  let ?c = "Vector3 0 100 300"
  let ?l = "lerp ?c (Vector3 (- 50) 30 50) 0.05"
  have box: "- 50 \<le> vx ?c" "vx ?c \<le> 0" "30 \<le> vy ?c" "vy ?c \<le> 100" "50 \<le> vz ?c" "vz ?c \<le> 300"
    by simp_all
  note lb = lerp_in_box [OF box]
  have lim: "minDistance \<le> vdist ?l (Vector3 (- 100) 0 0)
           \<and> vdist ?l (Vector3 (- 100) 0 0) \<le> maxDistance"
    by (rule box_within_limits) (use lb in blast)+
  have idle: "controls_update (?l, Vector3 (- 100) 0 0) = (?l, Vector3 (- 100) 0 0)"
    by (rule controls_update_idle) (use lim in blast)+
  have c0: "camera_position ((animate controls_update ^^ 0) follow_scene) = ?c"
    by (simp add: follow_scene_camera)
  show ?case unfolding c0 using box idle by blast
next
  case (Suc m)
  let ?s = "(animate controls_update ^^ m) follow_scene"
  let ?c = "camera_position ?s"
  let ?l = "lerp ?c (Vector3 (- 50) 30 50) 0.05"
  have box: "- 50 \<le> vx ?c" "vx ?c \<le> 0" "30 \<le> vy ?c" "vy ?c \<le> 100" "50 \<le> vz ?c" "vz ?c \<le> 300"
    using Suc.IH by blast+
  have idle: "controls_update (?l, Vector3 (- 100) 0 0) = (?l, Vector3 (- 100) 0 0)"
    using Suc.IH by blast
  have np: "\<not> isPaused ?s" using follow_scene_running by simp
  have ft: "followTarget ?s = Some 0" using follow_scene_target by simp
  have len: "0 < length (planets ?s)" using follow_scene_length by simp
  have tp: "position (planets (animate controls_update ?s) ! 0) = Vector3 (- 100) 0 0"
    using follow_scene_still [where ctl = controls_update and m = m] by simp
  have e: "camera_position ((animate controls_update ^^ Suc m) follow_scene)
             = camera_position (animate controls_update ?s)" by simp
  have next_cam: "camera_position ((animate controls_update ^^ Suc m) follow_scene) = ?l"
    unfolding e animate_camera [OF np ft len] tp follow_goal idle by simp
  note lb = lerp_in_box [OF box]
  let ?l2 = "lerp ?l (Vector3 (- 50) 30 50) 0.05"
  have lb2: "- 50 \<le> vx ?l2 \<and> vx ?l2 \<le> 0 \<and> 30 \<le> vy ?l2 \<and> vy ?l2 \<le> 100
             \<and> 50 \<le> vz ?l2 \<and> vz ?l2 \<le> 300"
    by (rule lerp_in_box) (use lb in blast)+
  have lim: "minDistance \<le> vdist ?l2 (Vector3 (- 100) 0 0)
           \<and> vdist ?l2 (Vector3 (- 100) 0 0) \<le> maxDistance"
    by (rule box_within_limits) (use lb2 in blast)+
  have idle2: "controls_update (?l2, Vector3 (- 100) 0 0) = (?l2, Vector3 (- 100) 0 0)"
    by (rule controls_update_idle) (use lim in blast)+
  show ?case unfolding next_cam using lb idle2 by blast
qed

theorem camera_follow_after_controls_witness:
  "\<not> isPaused follow_scene \<and> followTarget follow_scene = Some 0
   \<and> 0 < length (planets follow_scene)
   \<and> (\<forall>m. position (planets ((animate controls_update ^^ Suc m) follow_scene) ! 0)
             = Vector3 (- 100) 0 0)
   \<and> (\<forall>m. fst (controls_update
                   (lerp (camera_position ((animate controls_update ^^ m) follow_scene))
                         (Vector3 (- 50) 30 50) 0.05, Vector3 (- 100) 0 0))
             = lerp (camera_position ((animate controls_update ^^ m) follow_scene))
                    (Vector3 (- 50) 30 50) 0.05)
   \<and> camera_position follow_scene = Vector3 0 100 300
   \<and> camera_position (animate controls_update follow_scene) = Vector3 (- 2.5) 96.5 287.5
   \<and> vdist (camera_position ((animate controls_update ^^ 3) follow_scene)) (Vector3 (- 50) 30 50)
       = 0.95 ^ 3 * vdist (Vector3 0 100 300) (Vector3 (- 50) 30 50)
   \<and> camera_position ((animate controls_update ^^ 3) follow_scene) \<noteq> Vector3 (- 50) 30 50
   \<and> (\<exists>N. \<forall>m\<ge>N. vdist (camera_position ((animate controls_update ^^ m) follow_scene))
                           (Vector3 (- 50) 30 50) < 0.001)"
proof -
  note h1 = follow_scene_running and h2 = follow_scene_target and h3 = follow_scene_length
  have still: "\<forall>m. position (planets ((animate controls_update ^^ Suc m) follow_scene) ! 0)
                    = Vector3 (- 100) 0 0"
    using follow_scene_still by blast
  have idle: "\<forall>m. fst (controls_update
                   (lerp (camera_position ((animate controls_update ^^ m) follow_scene))
                         (Vector3 (- 50) 30 50) 0.05, Vector3 (- 100) 0 0))
             = lerp (camera_position ((animate controls_update ^^ m) follow_scene))
                    (Vector3 (- 50) 30 50) 0.05"
  proof
    fix m
    show "fst (controls_update
                   (lerp (camera_position ((animate controls_update ^^ m) follow_scene))
                         (Vector3 (- 50) 30 50) 0.05, Vector3 (- 100) 0 0))
             = lerp (camera_position ((animate controls_update ^^ m) follow_scene))
                    (Vector3 (- 50) 30 50) 0.05"
      unfolding follow_scene_controls_idle [of m, THEN conjunct2] by simp
  qed
  have run: "\<forall>m. position (planets ((animate controls_update ^^ Suc m) follow_scene) ! 0)
                   = Vector3 (- 100) 0 0
              \<and> fst (controls_update
                   (lerp (camera_position ((animate controls_update ^^ m) follow_scene))
                         (Vector3 (- 50) 30 50) 0.05, Vector3 (- 100) 0 0))
                 = lerp (camera_position ((animate controls_update ^^ m) follow_scene))
                    (Vector3 (- 50) 30 50) 0.05"
    using still idle by blast
  note T = camera_follow_after_controls [OF h1 h2 h3, where ctl = controls_update
             and p = "Vector3 (- 100) 0 0" and n = 3 and eps = "0.001",
             unfolded follow_goal follow_scene_camera]
  note R = T [THEN conjunct2, THEN mp, OF run]
  have c1: "camera_position (animate controls_update follow_scene) = Vector3 (- 2.5) 96.5 287.5"
  proof -
    have "camera_position ((animate controls_update ^^ Suc 0) follow_scene)
            = lerp (camera_position ((animate controls_update ^^ 0) follow_scene))
                   (Vector3 (- 50) 30 50) 0.05"
      by (rule camera_follow_after_controls [OF h1 h2 h3, where ctl = controls_update
             and p = "Vector3 (- 100) 0 0" and n = 0 and eps = "0.001",
             unfolded follow_goal, THEN conjunct2, THEN mp, OF run, THEN conjunct1])
    then show ?thesis by (simp add: follow_scene_camera lerp_def)
  qed
  have ne: "Vector3 0 100 300 \<noteq> Vector3 (- 50) 30 50" by simp
  have small: "(0::real) < 0.001" by simp
  have c2: "vdist (camera_position ((animate controls_update ^^ 3) follow_scene))
              (Vector3 (- 50) 30 50)
       = 0.95 ^ 3 * vdist (Vector3 0 100 300) (Vector3 (- 50) 30 50)"
    by (rule R [THEN conjunct2, THEN conjunct1])
  have c3: "camera_position ((animate controls_update ^^ 3) follow_scene) \<noteq> Vector3 (- 50) 30 50"
    by (rule R [THEN conjunct2, THEN conjunct2, THEN conjunct1, THEN mp, OF ne])
  have c4: "\<exists>N. \<forall>m\<ge>N. vdist (camera_position ((animate controls_update ^^ m) follow_scene))
                           (Vector3 (- 50) 30 50) < 0.001"
    by (rule R [THEN conjunct2, THEN conjunct2, THEN conjunct2, THEN mp, OF small])
  show ?thesis using h1 h2 h3 still idle follow_scene_camera c1 c2 c3 c4 by blast
qed

end
